theory Spec2Isabelle
  imports Complex_Main
begin

section \<open>Python values and the operations the handlers use on them\<close>

text \<open>
  The two handlers work on what \<^verbatim>\<open>json.loads\<close> returns and on the event
  dictionaries of the platform.  A value is one of Python's JSON-shaped values.  A
  dictionary is an association list in insertion order; a key is looked up with
  \<open>map_of\<close>.  A \<open>char\<close> stands for a code point below 256, and \<open>length\<close> counts
  code points as Python's \<^verbatim>\<open>len\<close> does.
\<close>

datatype pyfloat = Finite real | PosInf | NegInf | NaN

datatype pyval =
    PNone
  | PBool bool
  | PInt int
  | PFloat pyfloat
  | PStr string
  | PList "pyval list"
  | PDict "(string \<times> pyval) list"

type_synonym pydict = "(string \<times> pyval) list"

text \<open>
  Exceptions are values.  \<open>AttributeError\<close>, \<open>TypeError\<close> and \<open>KeyError\<close> are raised
  by the interpreter; \<open>JSONDecodeError\<close>, \<open>ClientError\<close> and \<open>OtherException\<close> come
  from the libraries with their text; \<open>ProcessingError\<close> is the repository's own class.
\<close>

datatype exn =
    AttributeError
  | TypeError
  | KeyError
  | JSONDecodeError string
  | ProcessingError string
  | ClientError string
  | OtherException string

text \<open>
  Library functions whose code is not part of the repository are parameters:
  \<^verbatim>\<open>json.loads\<close>, \<^verbatim>\<open>json.dumps\<close>, whether \<^verbatim>\<open>datetime.fromisoformat\<close>
  accepts a string, and the text \<^verbatim>\<open>str(e)\<close> of an interpreter exception.
\<close>

record library =
  json_loads :: "string \<Rightarrow> exn + pyval"
  json_dumps :: "pyval \<Rightarrow> string"
  fromisoformat :: "string \<Rightarrow> bool"
  str_builtin :: "exn \<Rightarrow> string"

definition exn_str :: "library \<Rightarrow> exn \<Rightarrow> string" where
  "exn_str L e =
     (case e of
        JSONDecodeError m \<Rightarrow> m
      | ProcessingError m \<Rightarrow> m
      | ClientError m \<Rightarrow> m
      | OtherException m \<Rightarrow> m
      | _ \<Rightarrow> str_builtin L e)"

definition then_do :: "exn + 'a \<Rightarrow> ('a \<Rightarrow> exn + 'b) \<Rightarrow> exn + 'b" where
  "then_do m f = (case m of Inl e \<Rightarrow> Inl e | Inr x \<Rightarrow> f x)"

text \<open>Truth value of an object, as \<^verbatim>\<open>if x:\<close> tests it.\<close>

fun truthy :: "pyval \<Rightarrow> bool" where
  "truthy PNone = False"
| "truthy (PBool b) = b"
| "truthy (PInt i) = (i \<noteq> 0)"
| "truthy (PFloat (Finite r)) = (r \<noteq> 0)"
| "truthy (PFloat _) = True"
| "truthy (PStr s) = (s \<noteq> [])"
| "truthy (PList xs) = (xs \<noteq> [])"
| "truthy (PDict kvs) = (kvs \<noteq> [])"

text \<open>\<^verbatim>\<open>s.startswith(p)\<close> and the substring test \<^verbatim>\<open>p in s\<close>.\<close>

fun startswith :: "string \<Rightarrow> string \<Rightarrow> bool" where
  "startswith s [] = True"
| "startswith [] (p # ps) = False"
| "startswith (c # cs) (p # ps) = (c = p \<and> startswith cs ps)"

fun contains :: "string \<Rightarrow> string \<Rightarrow> bool" where
  "contains [] p = (p = [])"
| "contains (c # cs) p = (startswith (c # cs) p \<or> contains cs p)"

text \<open>\<^verbatim>\<open>x.get(k, d)\<close>: only a dictionary has the method.\<close>

fun py_get :: "pyval \<Rightarrow> string \<Rightarrow> pyval \<Rightarrow> exn + pyval" where
  "py_get (PDict kvs) k d = Inr (case map_of kvs k of Some v \<Rightarrow> v | None \<Rightarrow> d)"
| "py_get _ k d = Inl AttributeError"

text \<open>
  \<^verbatim>\<open>k in x\<close> for a string \<open>k\<close>: a key of a dictionary, an element of a list, a
  substring of a string, and a \<open>TypeError\<close> on anything else.
\<close>

fun py_in :: "string \<Rightarrow> pyval \<Rightarrow> exn + bool" where
  "py_in k (PDict kvs) = Inr (map_of kvs k \<noteq> None)"
| "py_in k (PList xs) = Inr (PStr k \<in> set xs)"
| "py_in k (PStr s) = Inr (contains s k)"
| "py_in k _ = Inl TypeError"

text \<open>\<^verbatim>\<open>x[k]\<close> for a string \<open>k\<close>.\<close>

fun py_item :: "pyval \<Rightarrow> string \<Rightarrow> exn + pyval" where
  "py_item (PDict kvs) k = (case map_of kvs k of Some v \<Rightarrow> Inr v | None \<Rightarrow> Inl KeyError)"
| "py_item _ k = Inl TypeError"

text \<open>The elements a \<^verbatim>\<open>for\<close> loop walks over; \<^verbatim>\<open>len\<close> is their number.\<close>

fun py_elems :: "pyval \<Rightarrow> exn + pyval list" where
  "py_elems (PList xs) = Inr xs"
| "py_elems (PStr s) = Inr (map (\<lambda>c. PStr [c]) s)"
| "py_elems (PDict kvs) = Inr (map (\<lambda>kv. PStr (fst kv)) kvs)"
| "py_elems _ = Inl TypeError"

section \<open>The queue processor\<close>

text \<open>
  The module's only state is its logger.  A log entry records the call and the
  values the message interpolates; every function takes the log and returns it
  extended.
\<close>

datatype qlog =
    Q_info_processing_batch nat
  | Q_info_processing_task pyval
  | Q_info_task_processed pyval pyval pyval
  | Q_error_processing_task pyval exn
  | Q_debug_processing_message pyval pyval
  | Q_info_message_processed pyval pyval
  | Q_error_invalid_json pyval exn
  | Q_error_processing_error pyval exn
  | Q_error_unexpected pyval exn
  | Q_warning_batch_failures nat
  | Q_info_all_processed

definition required_fields :: "string list" where
  "required_fields = [''task_id'', ''title'', ''description'', ''priority'', ''created_at'']"

text \<open>
  The loop over \<open>required_fields\<close>: the first field that is not in \<open>task_data\<close>
  raises \<open>ProcessingError\<close>.
\<close>

fun check_required :: "string list \<Rightarrow> pyval \<Rightarrow> exn + unit" where
  "check_required [] task_data = Inr ()"
| "check_required (field # rest) task_data =
     then_do (py_in field task_data) (\<lambda>present.
       if \<not> present then Inl (ProcessingError (''Missing required field: '' @ field))
       else check_required rest task_data)"

text \<open>
  The body of the \<^verbatim>\<open>try\<close> block of \<open>process_task\<close>: the field check, the log
  line that reads \<open>title\<close> and \<open>priority\<close>, and the result.
\<close>

definition process_task_body :: "qlog list \<Rightarrow> pyval \<Rightarrow> pyval \<Rightarrow> (exn + pyval) \<times> qlog list" where
  "process_task_body lg task_id task_data =
     (case check_required required_fields task_data of
        Inl e \<Rightarrow> (Inl e, lg)
      | Inr _ \<Rightarrow>
          (case py_item task_data ''title'' of
             Inl e \<Rightarrow> (Inl e, lg)
           | Inr title \<Rightarrow>
               (case py_item task_data ''priority'' of
                  Inl e \<Rightarrow> (Inl e, lg)
                | Inr priority \<Rightarrow>
                    (Inr (PDict [(''task_id'', task_id),
                                 (''status'', PStr ''completed''),
                                 (''message'', PStr ''Task processed successfully'')]),
                     lg @ [Q_info_task_processed task_id title priority]))))"

text \<open>
  \<open>process_task\<close>: \<^verbatim>\<open>task_data.get("task_id")\<close> runs before the \<^verbatim>\<open>try\<close>, so its
  exception leaves the function as it is; inside the \<^verbatim>\<open>try\<close> a \<open>ProcessingError\<close>
  is raised again and any other exception is logged and wrapped in one.
\<close>

definition process_task :: "library \<Rightarrow> qlog list \<Rightarrow> pyval \<Rightarrow> (exn + pyval) \<times> qlog list" where
  "process_task L lg task_data =
     (case py_get task_data ''task_id'' PNone of
        Inl e \<Rightarrow> (Inl e, lg)
      | Inr task_id \<Rightarrow>
          (case process_task_body (lg @ [Q_info_processing_task task_id]) task_id task_data of
             (Inr result, lg') \<Rightarrow> (Inr result, lg')
           | (Inl (ProcessingError m), lg') \<Rightarrow> (Inl (ProcessingError m), lg')
           | (Inl e, lg') \<Rightarrow>
               (Inl (ProcessingError (''Failed to process task: '' @ exn_str L e)),
                lg' @ [Q_error_processing_task task_id e])))"

text \<open>
  The \<^verbatim>\<open>try\<close> block of the batch loop for one record: the debug line, the body
  (decoded when it is a string), \<open>process_task\<close> and the success line.
\<close>

definition handle_record ::
  "library \<Rightarrow> qlog list \<Rightarrow> pyval \<Rightarrow> pyval \<Rightarrow> pyval \<Rightarrow> (exn + pyval) \<times> qlog list" where
  "handle_record L lg record message_id receipt_handle =
     (let lg1 = lg @ [Q_debug_processing_message message_id receipt_handle] in
      case py_get record ''body'' (PStr ''{}'') of
        Inl e \<Rightarrow> (Inl e, lg1)
      | Inr body \<Rightarrow>
          (case (case body of PStr s \<Rightarrow> json_loads L s | _ \<Rightarrow> Inr body) of
             Inl e \<Rightarrow> (Inl e, lg1)
           | Inr task_data \<Rightarrow>
               (case process_task L lg1 task_data of
                  (Inl e, lg2) \<Rightarrow> (Inl e, lg2)
                | (Inr result, lg2) \<Rightarrow>
                    (Inr result, lg2 @ [Q_info_message_processed message_id result]))))"

definition failure_entry :: "pyval \<Rightarrow> pyval" where
  "failure_entry message_id = PDict [(''itemIdentifier'', message_id)]"

text \<open>
  The \<^verbatim>\<open>for\<close> loop of the batch handler, with \<open>batch_item_failures\<close> and the log
  as accumulators.  The two \<^verbatim>\<open>record.get\<close> calls are outside the \<^verbatim>\<open>try\<close>: their
  exception ends the loop and leaves the handler.  Each of the three handlers logs
  and appends the record's identifier.
\<close>

fun process_records ::
  "library \<Rightarrow> pyval list \<Rightarrow> pyval list \<Rightarrow> qlog list \<Rightarrow> (exn + pyval list) \<times> qlog list" where
  "process_records L [] batch_item_failures lg = (Inr batch_item_failures, lg)"
| "process_records L (record # records) batch_item_failures lg =
     (case py_get record ''messageId'' PNone of
        Inl e \<Rightarrow> (Inl e, lg)
      | Inr message_id \<Rightarrow>
          (case py_get record ''receiptHandle'' PNone of
             Inl e \<Rightarrow> (Inl e, lg)
           | Inr receipt_handle \<Rightarrow>
               (case handle_record L lg record message_id receipt_handle of
                  (Inr result, lg') \<Rightarrow> process_records L records batch_item_failures lg'
                | (Inl (JSONDecodeError m), lg') \<Rightarrow>
                    process_records L records
                      (batch_item_failures @ [failure_entry message_id])
                      (lg' @ [Q_error_invalid_json message_id (JSONDecodeError m)])
                | (Inl (ProcessingError m), lg') \<Rightarrow>
                    process_records L records
                      (batch_item_failures @ [failure_entry message_id])
                      (lg' @ [Q_error_processing_error message_id (ProcessingError m)])
                | (Inl e, lg') \<Rightarrow>
                    process_records L records
                      (batch_item_failures @ [failure_entry message_id])
                      (lg' @ [Q_error_unexpected message_id e]))))"

text \<open>
  The batch handler.  \<^verbatim>\<open>event.get("Records", [])\<close> is read for the first log line
  and again for the loop; the result is the dictionary with the failure entries.
\<close>

definition queue_lambda_handler ::
  "library \<Rightarrow> qlog list \<Rightarrow> pyval \<Rightarrow> (exn + pyval) \<times> qlog list" where
  "queue_lambda_handler L lg event =
     (case then_do (py_get event ''Records'' (PList [])) py_elems of
        Inl e \<Rightarrow> (Inl e, lg)
      | Inr records \<Rightarrow>
          (case process_records L records [] (lg @ [Q_info_processing_batch (length records)]) of
             (Inl e, lg') \<Rightarrow> (Inl e, lg')
           | (Inr batch_item_failures, lg') \<Rightarrow>
               (Inr (PDict [(''batchItemFailures'', PList batch_item_failures)]),
                lg' @ [if batch_item_failures \<noteq> []
                       then Q_warning_batch_failures (length batch_item_failures)
                       else Q_info_all_processed])))"

subsection \<open>What the batch claims speak about\<close>

text \<open>
  The identifier of a record, its decode step, and whether the record fails: its
  decode raises, or \<open>process_task\<close> raises on what was decoded.  The attempts are
  read off the log: the debug line at the start of each \<^verbatim>\<open>try\<close> block.
\<close>

definition message_id :: "pydict \<Rightarrow> pyval" where
  "message_id r = (case map_of r ''messageId'' of Some v \<Rightarrow> v | None \<Rightarrow> PNone)"

definition decode :: "library \<Rightarrow> pydict \<Rightarrow> exn + pyval" where
  "decode L r =
     (case map_of r ''body'' of
        None \<Rightarrow> json_loads L ''{}''
      | Some (PStr s) \<Rightarrow> json_loads L s
      | Some body \<Rightarrow> Inr body)"

definition item_fails :: "library \<Rightarrow> pydict \<Rightarrow> bool" where
  "item_fails L r =
     (case decode L r of
        Inl e \<Rightarrow> True
      | Inr task_data \<Rightarrow> isl (fst (process_task L [] task_data)))"

fun attempted :: "qlog \<Rightarrow> pyval list" where
  "attempted (Q_debug_processing_message m h) = [m]"
| "attempted _ = []"

definition attempts :: "qlog list \<Rightarrow> pyval list" where
  "attempts lg = concat (map attempted lg)"

definition failed_identifiers :: "library \<Rightarrow> pydict list \<Rightarrow> pyval list" where
  "failed_identifiers L rs = map message_id (filter (item_fails L) rs)"

text \<open>
  A library for the examples: its decoder accepts the text of the empty object and
  nothing else.
\<close>

definition sample_library :: library where
  "sample_library =
     \<lparr>json_loads = (\<lambda>s. if s = ''{}'' then Inr (PDict [])
                         else Inl (JSONDecodeError ''Expecting value'')),
      json_dumps = (\<lambda>v. ''<json>''),
      fromisoformat = (\<lambda>s. s = ''2025-12-31T23:59:59+00:00''),
      str_builtin = (\<lambda>e. ''<exception>'')\<rparr>"

definition sample_task :: pydict where
  "sample_task =
     [(''task_id'', PStr ''t-1''), (''title'', PStr ''Write report''),
      (''description'', PStr ''Quarterly numbers''), (''priority'', PStr ''high''),
      (''created_at'', PStr ''2025-11-13T10:00:00Z'')]"

definition sample_records :: "pydict list" where
  "sample_records =
     [[(''messageId'', PStr ''m1''), (''receiptHandle'', PStr ''h1''), (''body'', PDict sample_task)],
      [(''messageId'', PStr ''m2''), (''receiptHandle'', PStr ''h2''), (''body'', PStr ''not json'')],
      [(''messageId'', PStr ''m3''), (''receiptHandle'', PStr ''h3''), (''body'', PDict sample_task)]]"

section \<open>Strings and time stamps\<close>

text \<open>
  \<^verbatim>\<open>str.isspace\<close> and \<^verbatim>\<open>str.lower\<close> on code points below 256: the white space
  is U+0009 to U+000D, U+001C to U+0020, U+0085 and U+00A0; the upper-case letters
  are A to Z and U+00C0 to U+00DE without the multiplication sign U+00D7.
\<close>

definition isspace :: "char \<Rightarrow> bool" where
  "isspace c =
     (let n = (of_char c :: nat)
      in (9 \<le> n \<and> n \<le> 13) \<or> (28 \<le> n \<and> n \<le> 32) \<or> n = 133 \<or> n = 160)"

definition strip :: "string \<Rightarrow> string" where
  "strip s = rev (dropWhile isspace (rev (dropWhile isspace s)))"

definition lower_char :: "char \<Rightarrow> char" where
  "lower_char c =
     (let n = (of_char c :: nat)
      in if (65 \<le> n \<and> n \<le> 90) \<or> (192 \<le> n \<and> n \<le> 222 \<and> n \<noteq> 215)
         then char_of (n + 32) else c)"

definition lower :: "string \<Rightarrow> string" where
  "lower s = map lower_char s"

text \<open>
  \<^verbatim>\<open>s.replace(old, new)\<close>: the occurrences of \<open>old\<close> are replaced from the left
  without overlap; an empty \<open>old\<close> matches before every character and at the end.
\<close>

function py_replace :: "string \<Rightarrow> string \<Rightarrow> string \<Rightarrow> string" where
  "py_replace s old new =
     (if old = [] then new @ concat (map (\<lambda>c. c # new) s)
      else if s = [] then []
      else if startswith s old then new @ py_replace (drop (length old) s) old new
      else hd s # py_replace (tl s) old new)"
  by pat_completeness auto
termination
  by (relation "measure (\<lambda>(s, old, new). length s)") auto

declare py_replace.simps [simp del]

text \<open>\<^verbatim>\<open>sep.join(xs)\<close>.\<close>

fun join :: "string \<Rightarrow> string list \<Rightarrow> string" where
  "join sep [] = []"
| "join sep [x] = x"
| "join sep (x # y # ys) = x @ sep @ join sep (y # ys)"

text \<open>
  What \<^verbatim>\<open>datetime.now(timezone.utc)\<close> returns, and its \<^verbatim>\<open>isoformat()\<close>: the
  fields are within their ranges, so each is printed with its fixed number of
  digits; the microseconds are left out when they are zero; the offset of UTC is
  \<^verbatim>\<open>+00:00\<close>.
\<close>

record datetime =
  year :: nat
  month :: nat
  day :: nat
  hour :: nat
  minute :: nat
  second :: nat
  microsecond :: nat

definition digit_char :: "nat \<Rightarrow> char" where
  "digit_char d = char_of (48 + d)"

definition zero_padded :: "nat \<Rightarrow> nat \<Rightarrow> string" where
  "zero_padded w n = map (\<lambda>i. digit_char (n div 10 ^ i mod 10)) (rev [0..<w])"

definition isoformat_local :: "datetime \<Rightarrow> string" where
  "isoformat_local dt =
     zero_padded 4 (year dt) @ ''-'' @ zero_padded 2 (month dt) @ ''-'' @ zero_padded 2 (day dt)
     @ ''T'' @ zero_padded 2 (hour dt) @ '':'' @ zero_padded 2 (minute dt)
     @ '':'' @ zero_padded 2 (second dt)
     @ (if microsecond dt = 0 then [] else ''.'' @ zero_padded 6 (microsecond dt))"

definition isoformat :: "datetime \<Rightarrow> string" where
  "isoformat dt = isoformat_local dt @ ''+00:00''"

section \<open>The API handler\<close>

subsection \<open>Validation and sanitization\<close>

definition valid_priorities :: "string list" where
  "valid_priorities = [''low'', ''medium'', ''high'']"

text \<open>
  \<open>validate_task\<close> returns the pair \<open>(is_valid, error_message)\<close>.  It is called on
  whatever the request body decodes to, so the operations on \<open>task_data\<close> may raise.
\<close>

definition validate_task :: "library \<Rightarrow> pyval \<Rightarrow> exn + (bool \<times> string option)" where
  "validate_task L task_data =
     then_do (py_in ''title'' task_data) (\<lambda>has_title.
     if \<not> has_title then Inr (False, Some ''Missing required field: title'') else
     then_do (py_in ''description'' task_data) (\<lambda>has_description.
     if \<not> has_description then Inr (False, Some ''Missing required field: description'') else
     then_do (py_in ''priority'' task_data) (\<lambda>has_priority.
     if \<not> has_priority then Inr (False, Some ''Missing required field: priority'') else
     then_do (py_get task_data ''title'' (PStr [])) (\<lambda>title.
     case title of
       PStr t \<Rightarrow>
         if strip t = [] then Inr (False, Some ''title cannot be empty'') else
         if length t > 200 then Inr (False, Some ''title cannot exceed 200 characters'') else
         then_do (py_get task_data ''description'' (PStr [])) (\<lambda>description.
         case description of
           PStr d \<Rightarrow>
             if strip d = [] then Inr (False, Some ''description cannot be empty'') else
             if length d > 2000
             then Inr (False, Some ''description cannot exceed 2000 characters'') else
             then_do (py_get task_data ''priority'' (PStr [])) (\<lambda>priority.
             if priority \<notin> set (map PStr valid_priorities)
             then Inr (False, Some (''priority must be one of: '' @ join '', '' valid_priorities))
             else
             then_do (py_get task_data ''due_date'' PNone) (\<lambda>due_date.
             if due_date \<noteq> PNone then
               (case due_date of
                  PStr dd \<Rightarrow>
                    if fromisoformat L (py_replace dd ''Z'' ''+00:00'') then Inr (True, None)
                    else Inr (False, Some ''due_date must be in ISO 8601 format'')
                | _ \<Rightarrow> Inr (False, Some ''due_date must be a string in ISO 8601 format''))
             else Inr (True, None)))
         | _ \<Rightarrow> Inr (False, Some ''description must be a string''))
     | _ \<Rightarrow> Inr (False, Some ''title must be a string'')))))"

text \<open>\<^verbatim>\<open>x.strip()\<close>: only a string has the method.\<close>

fun py_strip :: "pyval \<Rightarrow> exn + string" where
  "py_strip (PStr s) = Inr (strip s)"
| "py_strip _ = Inl AttributeError"

text \<open>\<^verbatim>\<open>d[k] = v\<close>: an existing key keeps its place, a new one goes to the end.\<close>

fun dict_set :: "('k \<times> 'v) list \<Rightarrow> 'k \<Rightarrow> 'v \<Rightarrow> ('k \<times> 'v) list" where
  "dict_set [] k v = [(k, v)]"
| "dict_set ((k', v') # kvs) k v =
     (if k' = k then (k, v) # kvs else (k', v') # dict_set kvs k v)"

text \<open>\<^verbatim>\<open>d.update(e)\<close>, and the literal \<^verbatim>\<open>{**d, **e}\<close>.\<close>

definition dict_update :: "('k \<times> 'v) list \<Rightarrow> ('k \<times> 'v) list \<Rightarrow> ('k \<times> 'v) list" where
  "dict_update d e = foldl (\<lambda>acc kv. dict_set acc (fst kv) (snd kv)) d e"

definition sanitize_task :: "pyval \<Rightarrow> exn + pydict" where
  "sanitize_task task_data =
     then_do (py_item task_data ''title'') (\<lambda>title.
     then_do (py_strip title) (\<lambda>title'.
     then_do (py_item task_data ''description'') (\<lambda>description.
     then_do (py_strip description) (\<lambda>description'.
     then_do (py_item task_data ''priority'') (\<lambda>priority.
     then_do (py_strip priority) (\<lambda>priority'.
     let sanitized = [(''title'', PStr title'),
                      (''description'', PStr description'),
                      (''priority'', PStr (lower priority'))]
     in then_do (py_in ''due_date'' task_data) (\<lambda>has_due_date.
        if has_due_date then
          then_do (py_item task_data ''due_date'') (\<lambda>due_date.
          if truthy due_date then
            then_do (py_strip due_date) (\<lambda>due_date'.
            Inr (dict_set sanitized ''due_date'' (PStr due_date')))
          else Inr sanitized)
        else Inr sanitized)))))))"

subsection \<open>The queue client and the module state\<close>

text \<open>
  A call of \<^verbatim>\<open>send_message\<close> with its four keyword arguments.  The module state holds
  whether the client handle exists, every call made so far, and the log.  The
  world gives what the outside returns during one request: the configured queue
  address, the identifier \<^verbatim>\<open>uuid.uuid4()\<close> draws, the clock, and whether the queue
  service accepts a call (\<open>None\<close>) or raises, and likewise whether
  \<^verbatim>\<open>boto3.client("sqs")\<close> returns a handle (\<open>None\<close>) or raises.
\<close>

record send_request =
  QueueUrl :: string
  MessageBody :: string
  MessageGroupId :: string
  MessageDeduplicationId :: string

datatype alog =
    A_info_received_event string
  | A_warning_validation_failed "string option"
  | A_info_task_sent string
  | A_error_send_failed exn
  | A_error_aws exn
  | A_error_unexpected exn

record api_state =
  sqs_client :: bool
  sent :: "send_request list"
  api_log :: "alog list"

record world =
  TASK_QUEUE_URL :: string
  uuid4 :: string
  utcnow :: datetime
  send_message :: "send_request \<Rightarrow> exn option"
  boto3_client :: "exn option"

text \<open>
  \<open>get_sqs_client\<close>: the handle is created on first use and kept; when its creation
  raises, nothing is stored and the exception leaves the function.
\<close>

definition get_sqs_client :: "world \<Rightarrow> api_state \<Rightarrow> (exn + unit) \<times> api_state" where
  "get_sqs_client W st =
     (if \<not> sqs_client st then
        (case boto3_client W of
           None \<Rightarrow> (Inr (), st\<lparr>sqs_client := True\<rparr>)
         | Some e \<Rightarrow> (Inl e, st))
      else (Inr (), st))"

definition message_body :: "world \<Rightarrow> pydict \<Rightarrow> pydict" where
  "message_body W task_data =
     dict_update
       [(''task_id'', PStr (uuid4 W)),
        (''created_at'', PStr (py_replace (isoformat (utcnow W)) ''+00:00'' ''Z''))]
       task_data"

text \<open>
  \<open>send_to_queue\<close>: inside the \<^verbatim>\<open>try\<close> the client is fetched first; when that
  raises, no call is made.  Otherwise the call is recorded in \<open>sent\<close> whether or not
  the service accepts it.  Only \<open>ClientError\<close> is caught, logged and raised again,
  from either step.
\<close>

definition send_to_queue ::
  "library \<Rightarrow> world \<Rightarrow> api_state \<Rightarrow> pydict \<Rightarrow> (exn + string) \<times> api_state" where
  "send_to_queue L W st task_data =
     (let task_id = uuid4 W
      in case get_sqs_client W st of
           (Inl (ClientError m), st1) \<Rightarrow>
             (Inl (ClientError m),
              st1\<lparr>api_log := api_log st1 @ [A_error_send_failed (ClientError m)]\<rparr>)
         | (Inl e, st1) \<Rightarrow> (Inl e, st1)
         | (Inr _, st1) \<Rightarrow>
             (let request = \<lparr>QueueUrl = TASK_QUEUE_URL W,
                             MessageBody = json_dumps L (PDict (message_body W task_data)),
                             MessageGroupId = ''task-processing'',
                             MessageDeduplicationId = task_id\<rparr>;
                  st2 = st1\<lparr>sent := sent st1 @ [request]\<rparr>
              in case send_message W request of
                   None \<Rightarrow>
                     (Inr task_id, st2\<lparr>api_log := api_log st2 @ [A_info_task_sent task_id]\<rparr>)
                 | Some (ClientError m) \<Rightarrow>
                     (Inl (ClientError m),
                      st2\<lparr>api_log := api_log st2 @ [A_error_send_failed (ClientError m)]\<rparr>)
                 | Some e \<Rightarrow> (Inl e, st2)))"

subsection \<open>Responses and the handler\<close>

record response =
  statusCode :: int
  headers :: "(string \<times> string) list"
  body :: string

definition default_headers :: "(string \<times> string) list" where
  "default_headers =
     [(''Content-Type'', ''application/json''),
      (''Access-Control-Allow-Origin'', ''*''),
      (''Access-Control-Allow-Headers'', ''Content-Type''),
      (''Access-Control-Allow-Methods'', ''POST,OPTIONS'')]"

definition create_response ::
  "library \<Rightarrow> int \<Rightarrow> pydict \<Rightarrow> (string \<times> string) list option \<Rightarrow> response" where
  "create_response L status_code response_body extra_headers =
     \<lparr>statusCode = status_code,
      headers = (case extra_headers of
                   None \<Rightarrow> default_headers
                 | Some h \<Rightarrow> if h \<noteq> [] then dict_update default_headers h
                             else default_headers),
      body = json_dumps L (PDict response_body)\<rparr>"

definition error_value :: "string option \<Rightarrow> pyval" where
  "error_value error_message = (case error_message of None \<Rightarrow> PNone | Some m \<Rightarrow> PStr m)"

text \<open>
  The request body as the handler reads it: \<^verbatim>\<open>event.get("body", "{}")\<close>, decoded
  when it is a string.
\<close>

definition parse_body :: "library \<Rightarrow> pyval \<Rightarrow> exn + pyval" where
  "parse_body L event =
     then_do (py_get event ''body'' (PStr ''{}'')) (\<lambda>request_body.
       case request_body of PStr s \<Rightarrow> json_loads L s | _ \<Rightarrow> Inr request_body)"

text \<open>
  The \<^verbatim>\<open>try\<close> block of the handler.  A \<open>JSONDecodeError\<close> of the decoder is caught
  by the inner handler and answered with 400; every other exception leaves the
  block.
\<close>

definition handle_request ::
  "library \<Rightarrow> world \<Rightarrow> api_state \<Rightarrow> pyval \<Rightarrow> (exn + response) \<times> api_state" where
  "handle_request L W st event =
     (case parse_body L event of
        Inl (JSONDecodeError m) \<Rightarrow>
          (Inr (create_response L 400 [(''error'', PStr ''Invalid JSON in request body'')] None), st)
      | Inl e \<Rightarrow> (Inl e, st)
      | Inr task_data \<Rightarrow>
          (case validate_task L task_data of
             Inl e \<Rightarrow> (Inl e, st)
           | Inr (is_valid, error_message) \<Rightarrow>
               if \<not> is_valid then
                 (Inr (create_response L 400 [(''error'', error_value error_message)] None),
                  st\<lparr>api_log := api_log st @ [A_warning_validation_failed error_message]\<rparr>)
               else
                 (case sanitize_task task_data of
                    Inl e \<Rightarrow> (Inl e, st)
                  | Inr sanitized_task \<Rightarrow>
                      (case send_to_queue L W st sanitized_task of
                         (Inl e, st') \<Rightarrow> (Inl e, st')
                       | (Inr task_id, st') \<Rightarrow>
                           (Inr (create_response L 200
                                   [(''task_id'', PStr task_id),
                                    (''message'', PStr ''Task created successfully''),
                                    (''status'', PStr ''queued'')] None),
                            st')))))"

text \<open>
  The handler: the first log line, the \<^verbatim>\<open>try\<close> block, and the two outer handlers,
  \<open>ClientError\<close> first and every other exception after it.
\<close>

definition api_lambda_handler ::
  "library \<Rightarrow> world \<Rightarrow> api_state \<Rightarrow> pyval \<Rightarrow> response \<times> api_state" where
  "api_lambda_handler L W st event =
     (let st0 = st\<lparr>api_log := api_log st @ [A_info_received_event (json_dumps L event)]\<rparr>
      in case handle_request L W st0 event of
           (Inr r, st1) \<Rightarrow> (r, st1)
         | (Inl (ClientError m), st1) \<Rightarrow>
             (create_response L 500
                [(''error'', PStr ''Failed to process task''),
                 (''details'', PStr (exn_str L (ClientError m)))] None,
              st1\<lparr>api_log := api_log st1 @ [A_error_aws (ClientError m)]\<rparr>)
         | (Inl e, st1) \<Rightarrow>
             (create_response L 500
                [(''error'', PStr ''Internal server error''),
                 (''details'', PStr (exn_str L e))] None,
              st1\<lparr>api_log := api_log st1 @ [A_error_unexpected e]\<rparr>))"

subsection \<open>The order of validation as the specification lists it\<close>

text \<open>
  Each check of the list reads the input on its own and gives \<open>None\<close> when it
  passes and the message when it fails.  \<open>first_failure\<close> runs a list of checks in
  order and stops at the first that does not pass.
\<close>

type_synonym check = "library \<Rightarrow> pyval \<Rightarrow> exn + string option"

definition present :: "string \<Rightarrow> check" where
  "present k L raw =
     then_do (py_in k raw) (\<lambda>b. Inr (if b then None else Some (''Missing required field: '' @ k)))"





fun first_failure :: "check list \<Rightarrow> library \<Rightarrow> pyval \<Rightarrow> exn + (bool \<times> string option)" where
  "first_failure [] L raw = Inr (True, None)"
| "first_failure (c # cs) L raw =
     (case c L raw of
        Inl e \<Rightarrow> Inl e
      | Inr (Some message) \<Rightarrow> Inr (False, Some message)
      | Inr None \<Rightarrow> first_failure cs L raw)"

subsection \<open>Sample inputs\<close>

definition sample_world :: world where
  "sample_world =
     \<lparr>TASK_QUEUE_URL = ''https://queue.example/tasks.fifo'',
      uuid4 = ''12345678-1234-4234-8234-123456789012'',
      utcnow = \<lparr>year = 2025, month = 11, day = 13, hour = 10, minute = 0, second = 7,
                microsecond = 0\<rparr>,
      send_message = (\<lambda>r. None),
      boto3_client = None\<rparr>"

definition initial_state :: api_state where
  "initial_state = \<lparr>sqs_client = False, sent = [], api_log = []\<rparr>"

definition padded_title_task :: pyval where
  "padded_title_task =
     PDict [(''title'', PStr (CHR ''A'' # replicate 200 (CHR '' ''))),
            (''description'', PStr ''d''), (''priority'', PStr ''low'')]"

definition long_title_task_without_priority :: pyval where
  "long_title_task_without_priority =
     PDict [(''title'', PStr (replicate 201 (CHR ''A''))), (''description'', PStr ''d'')]"

definition shouting_task :: pydict where
  "shouting_task =
     [(''title'', PStr ''  A  ''), (''description'', PStr ''  B  ''), (''priority'', PStr ''HIGH'')]"

definition dated_task :: pydict where
  "dated_task =
     [(''title'', PStr ''Pay rent''), (''description'', PStr ''before the first''),
      (''priority'', PStr ''high''), (''due_date'', PStr '' 2025-12-31T23:59:59Z '')]"

definition valid_task :: pydict where
  "valid_task =
     [(''title'', PStr ''Write report''), (''description'', PStr ''Quarterly numbers''),
      (''priority'', PStr ''high'')]"

definition valid_event :: pyval where
  "valid_event = PDict [(''body'', PDict valid_task)]"

definition untitled_event :: pyval where
  "untitled_event =
     PDict [(''body'', PDict [(''description'', PStr ''Quarterly numbers''),
                              (''priority'', PStr ''high'')])]"

definition malformed_event :: pyval where
  "malformed_event = PDict [(''body'', PStr ''not json'')]"

definition number_event :: pyval where
  "number_event = PDict [(''body'', PInt 5)]"

definition refusing_world :: world where
  "refusing_world = sample_world\<lparr>send_message := (\<lambda>r. Some (ClientError ''NonExistentQueue''))\<rparr>"

definition clientless_world :: world where
  "clientless_world = sample_world\<lparr>boto3_client := Some (OtherException ''NoRegionError'')\<rparr>"

text \<open>
  The client is at hand when the handle exists already or its creation returns.
\<close>

definition client_ready :: "world \<Rightarrow> api_state \<Rightarrow> bool" where
  "client_ready W st = (if sqs_client st then True else boto3_client W = None)"

subsection \<open>The envelope and the enqueue call as the specification describes them\<close>

text \<open>
  The envelope is the identifier drawn for this request, the clock reading in
  ISO 8601 with the \<open>Z\<close> designator, and the normalized fields after them.  The
  enqueue call carries the serialized envelope, the one ordering group, and the
  identifier again as the deduplication key.
\<close>

definition envelope :: "world \<Rightarrow> pydict \<Rightarrow> pydict" where
  "envelope W normalized =
     [(''task_id'', PStr (uuid4 W)),
      (''created_at'', PStr (isoformat_local (utcnow W) @ ''Z''))] @ normalized"

definition enqueue_request :: "library \<Rightarrow> world \<Rightarrow> pydict \<Rightarrow> send_request" where
  "enqueue_request L W normalized =
     \<lparr>QueueUrl = TASK_QUEUE_URL W,
      MessageBody = json_dumps L (PDict (envelope W normalized)),
      MessageGroupId = ''task-processing'',
      MessageDeduplicationId = uuid4 W\<rparr>"

section \<open>Properties of the queue processor\<close>

subsection \<open>The log is only appended to\<close>

lemma process_task_body_log:
  "process_task_body lg t v = (fst (process_task_body [] t v), lg @ snd (process_task_body [] t v))"
  by (simp add: process_task_body_def split: sum.splits)

lemma process_task_log:
  "process_task L lg v = (fst (process_task L [] v), lg @ snd (process_task L [] v))"
proof (cases "py_get v ''task_id'' PNone")
  case (Inl e)
  then show ?thesis by (simp add: process_task_def)
next
  case (Inr t)
  obtain r l where b: "process_task_body [] t v = (r, l)"
    by (cases "process_task_body [] t v") auto
  have b1: "process_task_body (lg @ [Q_info_processing_task t]) t v
            = (r, (lg @ [Q_info_processing_task t]) @ l)"
    using process_task_body_log [of "lg @ [Q_info_processing_task t]" t v] b by simp
  have b2: "process_task_body [Q_info_processing_task t] t v
            = (r, [Q_info_processing_task t] @ l)"
    using process_task_body_log [of "[Q_info_processing_task t]" t v] b by simp
  show ?thesis
    unfolding process_task_def using Inr b1 b2
    by (simp split: sum.splits exn.splits)
qed

lemma attempts_append: "attempts (a @ b) = attempts a @ attempts b"
  by (simp add: attempts_def)

lemma attempts_process_task_body: "attempts (snd (process_task_body [] t v)) = []"
  by (simp add: process_task_body_def attempts_def split: sum.splits)

lemma attempts_process_task: "attempts (snd (process_task L [] v)) = []"
proof (cases "py_get v ''task_id'' PNone")
  case (Inl e)
  then show ?thesis by (simp add: process_task_def attempts_def)
next
  case (Inr t)
  obtain r l where b: "process_task_body [] t v = (r, l)"
    by (cases "process_task_body [] t v") auto
  have b2: "process_task_body [Q_info_processing_task t] t v
            = (r, [Q_info_processing_task t] @ l)"
    using process_task_body_log [of "[Q_info_processing_task t]" t v] b by simp
  have l: "attempts l = []" using attempts_process_task_body [of t v] b by simp
  show ?thesis
    unfolding process_task_def using Inr b2 l
    by (simp add: attempts_def split: sum.splits exn.splits)
qed


lemma handle_record_dict:
  "handle_record L lg (PDict r) m h =
     (case decode L r of
        Inl e \<Rightarrow> (Inl e, lg @ [Q_debug_processing_message m h])
      | Inr task_data \<Rightarrow>
          (case fst (process_task L [] task_data) of
             Inl e \<Rightarrow> (Inl e, lg @ [Q_debug_processing_message m h]
                                @ snd (process_task L [] task_data))
           | Inr result \<Rightarrow>
               (Inr result, lg @ [Q_debug_processing_message m h]
                              @ snd (process_task L [] task_data)
                              @ [Q_info_message_processed m result])))"
proof -
  have pt: "\<And>td. process_task L (lg @ [Q_debug_processing_message m h]) td =
        (fst (process_task L [] td),
         (lg @ [Q_debug_processing_message m h]) @ snd (process_task L [] td))"
    by (rule process_task_log)
  show ?thesis
    by (simp add: handle_record_def decode_def Let_def pt
             split: option.splits pyval.splits sum.splits)
qed

lemma handle_record_fails:
  "isl (fst (handle_record L lg (PDict r) m h)) = item_fails L r"
  by (simp add: handle_record_dict item_fails_def split: sum.splits)

lemma handle_record_attempts:
  "attempts (snd (handle_record L lg (PDict r) m h)) = attempts lg @ [m]"
  using attempts_process_task [of L]
  by (simp add: handle_record_dict attempts_append split: sum.splits)
     (simp add: attempts_def)

lemma process_records_step:
  "process_records L (PDict r # rs) acc lg =
     process_records L rs
       (if item_fails L r then acc @ [failure_entry (message_id r)] else acc)
       (snd (process_records L [PDict r] acc lg))"
proof -
  let ?m = "message_id r"
  let ?h = "case map_of r ''receiptHandle'' of Some v \<Rightarrow> v | None \<Rightarrow> PNone"
  obtain res lg' where h: "handle_record L lg (PDict r) ?m ?h = (res, lg')"
    by (cases "handle_record L lg (PDict r) ?m ?h") auto
  have f: "isl res = item_fails L r"
    using handle_record_fails [of L lg r ?m ?h] h by simp
  show ?thesis
  proof (cases res)
    case (Inr x)
    with f h show ?thesis by (simp add: message_id_def split: option.splits)
  next
    case (Inl e)
    with f h show ?thesis by (cases e) (simp_all add: message_id_def split: option.splits)
  qed
qed

lemma process_records_single_attempts:
  "attempts (snd (process_records L [PDict r] acc lg)) = attempts lg @ [message_id r]"
proof -
  let ?m = "message_id r"
  let ?h = "case map_of r ''receiptHandle'' of Some v \<Rightarrow> v | None \<Rightarrow> PNone"
  obtain res lg' where h: "handle_record L lg (PDict r) ?m ?h = (res, lg')"
    by (cases "handle_record L lg (PDict r) ?m ?h") auto
  have a: "attempts lg' = attempts lg @ [?m]"
    using handle_record_attempts [of L lg r ?m ?h] h by simp
  show ?thesis
  proof (cases res)
    case (Inr x)
    with a h show ?thesis by (simp add: message_id_def split: option.splits)
  next
    case (Inl e)
    with a h show ?thesis
      by (cases e) (simp_all add: message_id_def attempts_def split: option.splits)
  qed
qed

lemma process_records_dicts:
  "fst (process_records L (map PDict rs) acc lg) =
     Inr (acc @ map (\<lambda>r. failure_entry (message_id r)) (filter (item_fails L) rs))
   \<and> attempts (snd (process_records L (map PDict rs) acc lg)) =
     attempts lg @ map message_id rs"
proof (induction rs arbitrary: acc lg)
  case Nil
  show ?case by simp
next
  case (Cons r rs)
  show ?case
    unfolding list.map
    apply (subst process_records_step)
    apply (subst (2) process_records_step)
    using Cons.IH process_records_single_attempts [of L r acc lg]
    apply simp
    done
qed

subsection \<open>The batch loop on records that are dictionaries\<close>

lemma queue_lambda_handler_dicts:
  assumes "py_get event ''Records'' (PList []) = Inr (PList (map PDict rs))"
  shows "fst (queue_lambda_handler L lg event) =
           Inr (PDict [(''batchItemFailures'',
                        PList (map failure_entry (failed_identifiers L rs)))])"
    and "attempts (snd (queue_lambda_handler L lg event)) = attempts lg @ map message_id rs"
proof -
  let ?lg1 = "lg @ [Q_info_processing_batch (length (map PDict rs))]"
  obtain res lg' where pr: "process_records L (map PDict rs) [] ?lg1 = (res, lg')"
    by (cases "process_records L (map PDict rs) [] ?lg1") auto
  have r: "res = Inr (map failure_entry (failed_identifiers L rs))"
    using process_records_dicts [of L rs "[]" ?lg1] pr
    by (simp add: failed_identifiers_def comp_def)
  have a: "attempts lg' = attempts lg @ map message_id rs"
    using process_records_dicts [of L rs "[]" ?lg1] pr
    by (simp add: attempts_append) (simp add: attempts_def)
  show "fst (queue_lambda_handler L lg event) =
           Inr (PDict [(''batchItemFailures'',
                        PList (map failure_entry (failed_identifiers L rs)))])"
    using assms pr r by (simp add: queue_lambda_handler_def then_do_def)
  show "attempts (snd (queue_lambda_handler L lg event)) = attempts lg @ map message_id rs"
    using assms pr r a
    by (simp add: queue_lambda_handler_def then_do_def attempts_append)
       (simp add: attempts_def)
qed

lemma failed_identifiers_mem:
  assumes "distinct (map message_id rs)" and "r \<in> set rs"
  shows "message_id r \<in> set (failed_identifiers L rs) \<longleftrightarrow> item_fails L r"
proof
  assume "message_id r \<in> set (failed_identifiers L rs)"
  then obtain r' where r': "r' \<in> set rs" "item_fails L r'" "message_id r' = message_id r"
    by (auto simp: failed_identifiers_def)
  with assms have "r' = r" by (meson distinct_map inj_onD)
  with r' show "item_fails L r" by simp
next
  assume "item_fails L r"
  with assms show "message_id r \<in> set (failed_identifiers L rs)"
    by (auto simp: failed_identifiers_def)
qed

text \<open>
  Claim C1.  For a batch whose records are dictionaries, the handler attempts every
  record in the order received (the attempts read off the log are the identifiers of
  all records, in order, whatever failed before), and it returns the identifiers of
  exactly the records whose decode or processing raised, in the order met: the
  result is the filter of the batch by \<open>item_fails\<close>.  When the identifiers of the
  batch are distinct, an identifier is reported if and only if its record failed.
  The empty batch gives the empty list of failures.
\<close>

theorem batch_reports_exactly_the_failed_items:
  assumes "py_get event ''Records'' (PList []) = Inr (PList (map PDict rs))"
  shows "fst (queue_lambda_handler L lg event) =
           Inr (PDict [(''batchItemFailures'',
                        PList (map failure_entry (failed_identifiers L rs)))])
       \<and> failed_identifiers L rs = map message_id (filter (item_fails L) rs)
       \<and> attempts (snd (queue_lambda_handler L lg event)) = attempts lg @ map message_id rs
       \<and> (distinct (map message_id rs) \<longrightarrow>
            (\<forall>r \<in> set rs. message_id r \<in> set (failed_identifiers L rs) \<longleftrightarrow> item_fails L r))
       \<and> fst (queue_lambda_handler L lg (PDict [(''Records'', PList [])])) =
           Inr (PDict [(''batchItemFailures'', PList [])])"
proof -
  have "py_get (PDict [(''Records'', PList [])]) ''Records'' (PList []) = Inr (PList (map PDict []))"
    by simp
  from queue_lambda_handler_dicts(1) [OF this, of L lg]
  have "fst (queue_lambda_handler L lg (PDict [(''Records'', PList [])])) =
           Inr (PDict [(''batchItemFailures'', PList [])])"
    by (simp add: failed_identifiers_def)
  then show ?thesis
    using queue_lambda_handler_dicts [OF assms, of L lg] failed_identifiers_mem [of rs _ L]
    by (auto simp: failed_identifiers_def)
qed

lemma sample_process: "fst (process_task sample_library [] (PDict sample_task)) =
   Inr (PDict [(''task_id'', PStr ''t-1''), (''status'', PStr ''completed''),
               (''message'', PStr ''Task processed successfully'')])"
  by (simp add: process_task_def process_task_body_def required_fields_def sample_task_def then_do_def)

lemma sample_fails: "map (item_fails sample_library) sample_records = [False, True, False]"
  using sample_process
  by (simp add: sample_records_def item_fails_def decode_def sample_library_def)

theorem batch_reports_exactly_the_failed_items_witness:
  "py_get (PDict [(''Records'', PList (map PDict sample_records))]) ''Records'' (PList [])
     = Inr (PList (map PDict sample_records))
   \<and> distinct (map message_id sample_records)
   \<and> fst (queue_lambda_handler sample_library []
            (PDict [(''Records'', PList (map PDict sample_records))])) =
       Inr (PDict [(''batchItemFailures'', PList [PDict [(''itemIdentifier'', PStr ''m2'')]])])
   \<and> attempts (snd (queue_lambda_handler sample_library []
            (PDict [(''Records'', PList (map PDict sample_records))]))) =
       [PStr ''m1'', PStr ''m2'', PStr ''m3'']"
proof -
  have h: "py_get (PDict [(''Records'', PList (map PDict sample_records))]) ''Records'' (PList [])
     = Inr (PList (map PDict sample_records))" by simp
  have f: "filter (item_fails sample_library) sample_records = [sample_records ! 1]"
    using sample_fails by (simp add: sample_records_def)
  have m: "map message_id sample_records = [PStr ''m1'', PStr ''m2'', PStr ''m3'']"
    by (simp add: sample_records_def message_id_def)
  show ?thesis
    using batch_reports_exactly_the_failed_items [OF h, of sample_library "[]"] f m
    by (simp add: failure_entry_def attempts_def) (simp add: sample_records_def message_id_def)
qed

text \<open>
  Claim C10.  For a batch whose records are dictionaries the handler returns its
  result: no exception of an item leaves the loop.
\<close>

theorem batch_handler_returns:
  assumes "py_get event ''Records'' (PList []) = Inr (PList (map PDict rs))"
  shows "\<not> isl (fst (queue_lambda_handler L lg event))"
  using queue_lambda_handler_dicts(1) [OF assms, of L lg] by simp

theorem batch_handler_returns_witness:
  "py_get (PDict [(''Records'', PList (map PDict sample_records))]) ''Records'' (PList [])
     = Inr (PList (map PDict sample_records))
   \<and> \<not> isl (fst (queue_lambda_handler sample_library []
                   (PDict [(''Records'', PList (map PDict sample_records))])))"
proof -
  have h: "py_get (PDict [(''Records'', PList (map PDict sample_records))]) ''Records'' (PList [])
     = Inr (PList (map PDict sample_records))" by simp
  show ?thesis using h batch_handler_returns [OF h, of sample_library "[]"] by simp
qed

text \<open>
  The hypothesis matters: the two \<^verbatim>\<open>record.get\<close> calls are outside the \<^verbatim>\<open>try\<close>
  block, so a record that is not a dictionary ends the handler with an exception.
\<close>

lemma batch_handler_raises_on_a_record_that_is_no_dict:
  "fst (queue_lambda_handler L lg (PDict [(''Records'', PList [PStr ''x''])])) = Inl AttributeError"
  by (simp add: queue_lambda_handler_def then_do_def)

subsection \<open>Processing one task\<close>

lemma check_required_dict:
  "check_required fs (PDict d) =
     (case find (\<lambda>f. map_of d f = None) fs of
        Some f \<Rightarrow> Inl (ProcessingError (''Missing required field: '' @ f))
      | None \<Rightarrow> Inr ())"
  by (induction fs) (auto simp: then_do_def)

lemma find_required_None:
  "find (\<lambda>f. map_of d f = None) required_fields = None \<Longrightarrow>
     map_of d ''title'' \<noteq> None \<and> map_of d ''priority'' \<noteq> None \<and> map_of d ''task_id'' \<noteq> None"
  by (simp add: required_fields_def split: if_splits)

lemma process_task_dict:
  "fst (process_task L lg (PDict d)) =
     (case find (\<lambda>f. map_of d f = None) required_fields of
        Some f \<Rightarrow> Inl (ProcessingError (''Missing required field: '' @ f))
      | None \<Rightarrow> Inr (PDict [(''task_id'', case map_of d ''task_id'' of Some v \<Rightarrow> v | None \<Rightarrow> PNone),
                             (''status'', PStr ''completed''),
                             (''message'', PStr ''Task processed successfully'')]))"
proof (cases "find (\<lambda>f. map_of d f = None) required_fields")
  case None
  with find_required_None [OF None] show ?thesis
    by (auto simp: process_task_def process_task_body_def check_required_dict)
next
  case (Some f)
  then show ?thesis
    by (simp add: process_task_def process_task_body_def check_required_dict)
qed

text \<open>
  Claim C4, as amended.  For every decoded structure that is a dictionary,
  \<open>process_task\<close> raises \<open>ProcessingError\<close>, naming the first missing field, when one
  of the five required fields is missing, and returns the processing result when
  all five are present; it raises exactly when a required field is absent.
\<close>

theorem process_task_on_objects:
  "fst (process_task L lg (PDict d)) =
     (case find (\<lambda>f. map_of d f = None) required_fields of
        Some f \<Rightarrow> Inl (ProcessingError (''Missing required field: '' @ f))
      | None \<Rightarrow> Inr (PDict [(''task_id'', case map_of d ''task_id'' of Some v \<Rightarrow> v | None \<Rightarrow> PNone),
                             (''status'', PStr ''completed''),
                             (''message'', PStr ''Task processed successfully'')]))
   \<and> isl (fst (process_task L lg (PDict d))) =
       (\<not> list_all (\<lambda>f. map_of d f \<noteq> None) required_fields)"
proof -
  have "(find (\<lambda>f. map_of d f = None) required_fields = None) =
        list_all (\<lambda>f. map_of d f \<noteq> None) required_fields"
    by (auto simp: find_None_iff list_all_iff)
  then show ?thesis
    using process_task_dict [of L lg d]
    by (cases "find (\<lambda>f. map_of d f = None) required_fields") auto
qed

text \<open>
  Claim C4 as stated speaks of every decoded structure.  The empty list decodes from
  a valid payload and has none of the required fields, and \<open>process_task\<close> leaves
  with the \<open>AttributeError\<close> of \<^verbatim>\<open>task_data.get\<close>, which runs before the \<^verbatim>\<open>try\<close>
  block, not with \<open>ProcessingError\<close>.
\<close>

theorem process_task_not_object_counterexample:
  "py_in ''task_id'' (PList []) = Inr False
   \<and> fst (process_task sample_library [] (PList [])) = Inl AttributeError"
  by (simp add: process_task_def)

text \<open>
  Claim C5.  The result of \<open>process_task\<close> does not depend on the state it starts
  from; its only effect is to append log lines that depend on the input alone; a
  second call on the same input, run after the first, returns the same result and
  appends the same lines again.
\<close>

theorem process_task_idempotent:
  "fst (process_task L lg1 v) = fst (process_task L lg2 v)
   \<and> snd (process_task L lg v) = lg @ snd (process_task L [] v)
   \<and> process_task L (snd (process_task L lg v)) v =
       (fst (process_task L lg v), lg @ snd (process_task L [] v) @ snd (process_task L [] v))"
proof -
  have a: "\<And>l. process_task L l v = (fst (process_task L [] v), l @ snd (process_task L [] v))"
    by (rule process_task_log)
  show ?thesis
    by (simp add: a [of lg1] a [of lg2] a [of lg] a [of "lg @ snd (process_task L [] v)"])
qed

section \<open>Properties of the API handler\<close>

subsection \<open>Validation\<close>

lemma then_do_simps [simp]:
  "then_do (Inl e) f = Inl e" "then_do (Inr x) f = f x"
  by (simp_all add: then_do_def)

lemma priority_msg: "''priority must be one of: '' @ join '', '' valid_priorities
   = ''priority must be one of: low, medium, high''"
  by (simp add: valid_priorities_def)

lemma validate_task_dict:
  assumes "map_of kvs ''title'' \<noteq> None" "map_of kvs ''description'' \<noteq> None"
    "map_of kvs ''priority'' \<noteq> None"
  shows "validate_task L (PDict kvs) =
     (case (case map_of kvs ''title'' of Some v \<Rightarrow> v | None \<Rightarrow> PStr []) of
        PStr t \<Rightarrow>
          if strip t = [] then Inr (False, Some ''title cannot be empty'') else
          if length t > 200 then Inr (False, Some ''title cannot exceed 200 characters'') else
          (case (case map_of kvs ''description'' of Some v \<Rightarrow> v | None \<Rightarrow> PStr []) of
            PStr d \<Rightarrow>
              if strip d = [] then Inr (False, Some ''description cannot be empty'') else
              if length d > 2000
              then Inr (False, Some ''description cannot exceed 2000 characters'') else
              if (case map_of kvs ''priority'' of Some v \<Rightarrow> v | None \<Rightarrow> PStr [])
                   \<notin> {PStr ''low'', PStr ''medium'', PStr ''high''}
              then Inr (False, Some ''priority must be one of: low, medium, high'')
              else
              (case (case map_of kvs ''due_date'' of Some v \<Rightarrow> v | None \<Rightarrow> PNone) of
                 PNone \<Rightarrow> Inr (True, None)
               | PStr dd \<Rightarrow>
                   if fromisoformat L (py_replace dd ''Z'' ''+00:00'') then Inr (True, None)
                   else Inr (False, Some ''due_date must be in ISO 8601 format'')
               | _ \<Rightarrow> Inr (False, Some ''due_date must be a string in ISO 8601 format''))
          | _ \<Rightarrow> Inr (False, Some ''description must be a string''))
      | _ \<Rightarrow> Inr (False, Some ''title must be a string''))"
proof -
  have due: "\<And>x. (if x \<noteq> PNone then
               (case x of
                  PStr dd \<Rightarrow>
                    if fromisoformat L (py_replace dd ''Z'' ''+00:00'') then Inr (True, None)
                    else Inr (False, Some ''due_date must be in ISO 8601 format'')
                | _ \<Rightarrow> Inr (False, Some ''due_date must be a string in ISO 8601 format''))
             else Inr (True, None)) =
       (case x of
                 PNone \<Rightarrow> Inr (True, None)
               | PStr dd \<Rightarrow>
                   if fromisoformat L (py_replace dd ''Z'' ''+00:00'') then Inr (True, None)
                   else Inr (False, Some ''due_date must be in ISO 8601 format'')
               | _ \<Rightarrow> Inr (False, Some ''due_date must be a string in ISO 8601 format''))"
    by (simp split: pyval.split)
  show ?thesis
    using assms unfolding validate_task_def priority_msg due
    by (simp add: valid_priorities_def cong: pyval.case_cong if_cong)
qed


text \<open>
  A run of checks depends on the checks up to the first that does not pass, and on
  nothing after it.
\<close>

lemma first_failure_pass: "c L raw = Inr None \<Longrightarrow> first_failure (c # cs) L raw = first_failure cs L raw"
  by simp

lemma first_failure_fail:
  "c L raw = Inr (Some m) \<Longrightarrow> first_failure (c # cs) L raw = Inr (False, Some m)"
  by simp

lemma first_failure_raise: "c L raw = Inl e \<Longrightarrow> first_failure (c # cs) L raw = Inl e"
  by simp





lemma isspace_space [simp]: "isspace (CHR '' '')"
  by (simp add: isspace_def)

lemma isspace_A [simp]: "\<not> isspace (CHR ''A'')"
  by (simp add: isspace_def)

lemma strip_padded_A: "strip (CHR ''A'' # replicate n (CHR '' '')) = ''A''"
proof -
  have "dropWhile isspace (replicate n (CHR '' '') @ ''A'') = dropWhile isspace ''A''"
    by (rule dropWhile_append2) simp
  then show ?thesis by (simp add: strip_def)
qed

text \<open>
  Claim C2, as amended.  For an input with a priority field whose title and
  description are strings, \<open>validate_task\<close> fails with the title length error exactly
  when the title is not blank and its length as given, white space included,
  exceeds 200; it fails with the description length error exactly when the title is
  not blank and at most 200 long as given, and the description is not blank and
  longer than 2000 as given.
\<close>

theorem length_check_counts_untrimmed:
  assumes "map_of kvs ''title'' = Some (PStr t)"
    and "map_of kvs ''description'' = Some (PStr d)"
    and "map_of kvs ''priority'' \<noteq> None"
  shows "(validate_task L (PDict kvs) = Inr (False, Some ''title cannot exceed 200 characters''))
           = (strip t \<noteq> [] \<and> 200 < length t)
       \<and> (validate_task L (PDict kvs) = Inr (False, Some ''description cannot exceed 2000 characters''))
           = (strip t \<noteq> [] \<and> length t \<le> 200 \<and> strip d \<noteq> [] \<and> 2000 < length d)"
proof -
  have v: "validate_task L (PDict kvs) =
          (if strip t = [] then Inr (False, Some ''title cannot be empty'') else
          if length t > 200 then Inr (False, Some ''title cannot exceed 200 characters'') else
              if strip d = [] then Inr (False, Some ''description cannot be empty'') else
              if length d > 2000
              then Inr (False, Some ''description cannot exceed 2000 characters'') else
              if (case map_of kvs ''priority'' of Some v \<Rightarrow> v | None \<Rightarrow> PStr [])
                   \<notin> {PStr ''low'', PStr ''medium'', PStr ''high''}
              then Inr (False, Some ''priority must be one of: low, medium, high'')
              else
              (case (case map_of kvs ''due_date'' of Some v \<Rightarrow> v | None \<Rightarrow> PNone) of
                 PNone \<Rightarrow> Inr (True, None)
               | PStr dd \<Rightarrow>
                   if fromisoformat L (py_replace dd ''Z'' ''+00:00'') then Inr (True, None)
                   else Inr (False, Some ''due_date must be in ISO 8601 format'')
               | _ \<Rightarrow> Inr (False, Some ''due_date must be a string in ISO 8601 format'')))"
    using assms by (subst validate_task_dict) simp_all
  show ?thesis
    unfolding v
    by (cases "case map_of kvs ''due_date'' of Some v \<Rightarrow> v | None \<Rightarrow> PNone")
       (simp_all)
qed

text \<open>
  Claim C2 as stated measures the trimmed text.  A title of one letter and 200
  spaces is one character long after trimming and is rejected for its length; and
  a title of 201 letters in an input without priority is rejected for the missing
  field, not for its length.
\<close>

theorem trimmed_length_counterexample:
  "length (strip (CHR ''A'' # replicate 200 (CHR '' ''))) = 1
   \<and> validate_task sample_library padded_title_task
       = Inr (False, Some ''title cannot exceed 200 characters'')
   \<and> length (strip (replicate 201 (CHR ''A''))) = 201
   \<and> validate_task sample_library long_title_task_without_priority
       = Inr (False, Some ''Missing required field: priority'')"
proof -
  have a: "strip (replicate 201 (CHR ''A'')) = replicate 201 (CHR ''A'')"
    by (simp add: strip_def flip: replicate_Suc)
  have "validate_task sample_library padded_title_task
       = Inr (False, Some ''title cannot exceed 200 characters'')"
    unfolding padded_title_task_def
    by (subst validate_task_dict) (simp_all add: strip_padded_A)
  moreover have "validate_task sample_library long_title_task_without_priority
       = Inr (False, Some ''Missing required field: priority'')"
    by (simp add: validate_task_def long_title_task_without_priority_def)
  ultimately show ?thesis
    by (simp add: strip_padded_A a)
qed

theorem length_check_counts_untrimmed_witness:
  "map_of [(''title'', PStr (CHR ''A'' # replicate 200 (CHR '' ''))),
            (''description'', PStr ''d''), (''priority'', PStr ''low'')] ''title''
     = Some (PStr (CHR ''A'' # replicate 200 (CHR '' '')))
   \<and> validate_task sample_library padded_title_task
       = Inr (False, Some ''title cannot exceed 200 characters'')"
proof -
  let ?kvs = "[(''title'', PStr (CHR ''A'' # replicate 200 (CHR '' ''))),
            (''description'', PStr ''d''), (''priority'', PStr ''low'')]"
  have h1: "map_of ?kvs ''title'' = Some (PStr (CHR ''A'' # replicate 200 (CHR '' '')))" by simp
  have h2: "map_of ?kvs ''description'' = Some (PStr ''d'')" by simp
  have h3: "map_of ?kvs ''priority'' \<noteq> None" by simp
  show ?thesis
    using length_check_counts_untrimmed [OF h1 h2 h3, of sample_library]
    by (simp add: padded_title_task_def strip_padded_A)
qed

subsection \<open>Sanitization\<close>

text \<open>
  Claim C7.  For a task whose title, description and priority are strings and whose
  due date, when present, is a string, \<open>sanitize_task\<close> returns the title and the
  description trimmed, the priority trimmed and in lower case, and the due date
  trimmed when it is present and not the empty string; otherwise the result has no
  due date key at all.
\<close>

theorem sanitize_task_normalizes:
  assumes "map_of kvs ''title'' = Some (PStr t)"
    and "map_of kvs ''description'' = Some (PStr d)"
    and "map_of kvs ''priority'' = Some (PStr p)"
    and "\<forall>v. map_of kvs ''due_date'' = Some v \<longrightarrow> (\<exists>s. v = PStr s)"
  shows "sanitize_task (PDict kvs) =
     Inr ([(''title'', PStr (strip t)),
           (''description'', PStr (strip d)),
           (''priority'', PStr (lower (strip p)))]
          @ (case map_of kvs ''due_date'' of
               Some (PStr s) \<Rightarrow> if s \<noteq> [] then [(''due_date'', PStr (strip s))] else []
             | _ \<Rightarrow> []))"
proof (cases "map_of kvs ''due_date''")
  case None
  with assms show ?thesis by (simp add: sanitize_task_def)
next
  case (Some v)
  with assms(4) obtain s where "v = PStr s" by auto
  with Some assms show ?thesis by (simp add: sanitize_task_def)
qed

text \<open>The example of the specification, and a task with a due date.\<close>

lemma strip_examples:
  "strip ''  A  '' = ''A''" "strip ''  B  '' = ''B''" "strip ''HIGH'' = ''HIGH''"
  "strip '' 2025-12-31T23:59:59Z '' = ''2025-12-31T23:59:59Z''"
  "strip ''Pay rent'' = ''Pay rent''" "strip ''before the first'' = ''before the first''"
  "strip ''high'' = ''high''"
  by (simp_all add: strip_def isspace_def)

lemma lower_examples: "lower ''HIGH'' = ''high''" "lower ''high'' = ''high''"
  by code_simp+

theorem sanitize_task_normalizes_witness:
  "sanitize_task (PDict shouting_task) =
     Inr [(''title'', PStr ''A''), (''description'', PStr ''B''), (''priority'', PStr ''high'')]
   \<and> sanitize_task (PDict dated_task) =
     Inr [(''title'', PStr ''Pay rent''), (''description'', PStr ''before the first''),
          (''priority'', PStr ''high''), (''due_date'', PStr ''2025-12-31T23:59:59Z'')]"
proof -
  have a: "map_of shouting_task ''title'' = Some (PStr ''  A  '')"
    "map_of shouting_task ''description'' = Some (PStr ''  B  '')"
    "map_of shouting_task ''priority'' = Some (PStr ''HIGH'')"
    "\<forall>v. map_of shouting_task ''due_date'' = Some v \<longrightarrow> (\<exists>s. v = PStr s)"
    by (simp_all add: shouting_task_def)
  have b: "map_of dated_task ''title'' = Some (PStr ''Pay rent'')"
    "map_of dated_task ''description'' = Some (PStr ''before the first'')"
    "map_of dated_task ''priority'' = Some (PStr ''high'')"
    "\<forall>v. map_of dated_task ''due_date'' = Some v \<longrightarrow> (\<exists>s. v = PStr s)"
    by (simp_all add: dated_task_def)
  have c: "map_of shouting_task ''due_date'' = None"
    "map_of dated_task ''due_date'' = Some (PStr '' 2025-12-31T23:59:59Z '')"
    by (simp_all add: shouting_task_def dated_task_def)
  show ?thesis
    using sanitize_task_normalizes [OF a] sanitize_task_normalizes [OF b]
    by (simp add: c strip_examples lower_examples)
qed

text \<open>The same with a due date that may also be \<^verbatim>\<open>None\<close> or another false value.\<close>

lemma sanitize_task_dict:
  assumes "map_of kvs ''title'' = Some (PStr t)"
    and "map_of kvs ''description'' = Some (PStr d)"
    and "map_of kvs ''priority'' = Some (PStr p)"
    and "\<forall>v. map_of kvs ''due_date'' = Some v \<longrightarrow> (\<not> truthy v \<or> (\<exists>s. v = PStr s))"
  shows "sanitize_task (PDict kvs) =
     Inr ([(''title'', PStr (strip t)),
           (''description'', PStr (strip d)),
           (''priority'', PStr (lower (strip p)))]
          @ (case map_of kvs ''due_date'' of
               Some (PStr s) \<Rightarrow> if s \<noteq> [] then [(''due_date'', PStr (strip s))] else []
             | _ \<Rightarrow> []))"
proof (cases "map_of kvs ''due_date''")
  case None
  with assms show ?thesis by (simp add: sanitize_task_def)
next
  case (Some v)
  show ?thesis
  proof (cases "truthy v")
    case True
    with assms(4) Some obtain s where "v = PStr s" by auto
    with Some assms show ?thesis by (simp add: sanitize_task_def)
  next
    case False
    with Some assms(1-3) show ?thesis
      by (cases v) (simp_all add: sanitize_task_def)
  qed
qed

subsection \<open>The time stamp\<close>

lemma py_replace_Nil: "old \<noteq> [] \<Longrightarrow> py_replace [] old new = []"
  by (subst py_replace.simps) simp

lemma py_replace_suffix:
  "CHR ''+'' \<notin> set s \<Longrightarrow> py_replace (s @ ''+00:00'') ''+00:00'' ''Z'' = s @ ''Z''"
proof (induction s)
  case Nil
  have "py_replace ''+00:00'' ''+00:00'' ''Z'' = ''Z'' @ py_replace [] ''+00:00'' ''Z''"
    by (subst py_replace.simps) simp
  then show ?case by (simp add: py_replace_Nil)
next
  case (Cons c cs)
  then have "c \<noteq> CHR ''+''" by auto
  then have "py_replace ((c # cs) @ ''+00:00'') ''+00:00'' ''Z''
              = c # py_replace (cs @ ''+00:00'') ''+00:00'' ''Z''"
    by (subst py_replace.simps) simp
  with Cons show ?case by simp
qed

lemma digit_char_not_plus: "digit_char (n mod 10) \<noteq> CHR ''+''"
proof
  assume "digit_char (n mod 10) = CHR ''+''"
  then have "of_char (digit_char (n mod 10)) = (of_char (CHR ''+'') :: nat)" by simp
  moreover have "n mod 10 < 10" by simp
  ultimately show False
    by (simp add: digit_char_def)
qed

lemma zero_padded_no_plus: "CHR ''+'' \<notin> set (zero_padded w n)"
proof
  assume "CHR ''+'' \<in> set (zero_padded w n)"
  then obtain i where "CHR ''+'' = digit_char (n div 10 ^ i mod 10)"
    by (auto simp: zero_padded_def)
  with digit_char_not_plus [of "n div 10 ^ i"] show False by simp
qed

lemma isoformat_local_no_plus: "CHR ''+'' \<notin> set (isoformat_local dt)"
  by (simp add: isoformat_local_def zero_padded_no_plus)

lemma created_at_text:
  "py_replace (isoformat dt) ''+00:00'' ''Z'' = isoformat_local dt @ ''Z''"
  unfolding isoformat_def by (rule py_replace_suffix) (rule isoformat_local_no_plus)


subsection \<open>What validation lets through\<close>

lemma validate_task_accepts:
  assumes "validate_task L v = Inr (True, m)"
  shows "\<exists>kvs t d p. v = PDict kvs
           \<and> map_of kvs ''title'' = Some (PStr t)
           \<and> map_of kvs ''description'' = Some (PStr d)
           \<and> map_of kvs ''priority'' = Some (PStr p)
           \<and> (\<forall>x. map_of kvs ''due_date'' = Some x \<longrightarrow> (\<not> truthy x \<or> (\<exists>s. x = PStr s)))"
proof (cases v)
  case (PDict kvs)
  have pres: "map_of kvs ''title'' \<noteq> None" "map_of kvs ''description'' \<noteq> None"
    "map_of kvs ''priority'' \<noteq> None"
    using assms unfolding PDict validate_task_def
    by (auto split: if_splits)
  let ?title = "case map_of kvs ''title'' of Some v \<Rightarrow> v | None \<Rightarrow> PStr []"
  let ?descr = "case map_of kvs ''description'' of Some v \<Rightarrow> v | None \<Rightarrow> PStr []"
  let ?prio = "case map_of kvs ''priority'' of Some v \<Rightarrow> v | None \<Rightarrow> PStr []"
  let ?due = "case map_of kvs ''due_date'' of Some v \<Rightarrow> v | None \<Rightarrow> PNone"
  note v = assms [unfolded PDict validate_task_dict [OF pres]]
  obtain t where t: "?title = PStr t" using v by (cases ?title) simp_all
  have t2: "\<not> (strip t = [] \<or> 200 < length t)"
    using v t by (auto split: if_splits)
  obtain d where d: "?descr = PStr d" using v t t2 by (cases ?descr) simp_all
  have d2: "\<not> (strip d = [] \<or> 2000 < length d)"
    using v t t2 d by (auto split: if_splits)
  have p: "?prio \<in> {PStr ''low'', PStr ''medium'', PStr ''high''}"
    using v t t2 d d2 by (auto split: if_splits)
  then obtain pp where pp: "?prio = PStr pp" by auto
  have due: "?due = PNone \<or> (\<exists>s. ?due = PStr s)"
    using v t t2 d d2 p by (cases ?due) (simp_all split: if_splits)
  have "map_of kvs ''title'' = Some (PStr t)" using t pres by auto
  moreover have "map_of kvs ''description'' = Some (PStr d)" using d pres by auto
  moreover have "map_of kvs ''priority'' = Some (PStr pp)" using pp pres by auto
  moreover have "\<forall>x. map_of kvs ''due_date'' = Some x \<longrightarrow> (\<not> truthy x \<or> (\<exists>s. x = PStr s))"
    using due by auto
  ultimately show ?thesis using PDict by blast
next
  case (PList xs)
  with assms show ?thesis by (simp add: validate_task_def split: if_splits)
next
  case (PStr s)
  with assms show ?thesis by (simp add: validate_task_def split: if_splits)
qed (use assms in \<open>simp_all add: validate_task_def\<close>)

lemma sanitize_after_validate:
  assumes "validate_task L v = Inr (True, m)"
  shows "\<exists>s. sanitize_task v = Inr s"
proof -
  from validate_task_accepts [OF assms] obtain kvs t d p where
    "v = PDict kvs" "map_of kvs ''title'' = Some (PStr t)"
    "map_of kvs ''description'' = Some (PStr d)" "map_of kvs ''priority'' = Some (PStr p)"
    "\<forall>x. map_of kvs ''due_date'' = Some x \<longrightarrow> (\<not> truthy x \<or> (\<exists>s. x = PStr s))"
    by blast
  then show ?thesis using sanitize_task_dict [of kvs t d p] by simp
qed

subsection \<open>The enqueue call\<close>

lemma sanitize_task_shape:
  assumes "sanitize_task v = Inr s"
  shows "\<exists>a b c. s = [(''title'', a), (''description'', b), (''priority'', c)]
           \<or> (\<exists>e. s = [(''title'', a), (''description'', b), (''priority'', c), (''due_date'', e)])"
  using assms unfolding sanitize_task_def then_do_def Let_def
  by (auto split: sum.splits if_splits)

lemma message_body_sanitized:
  assumes "sanitize_task v = Inr s"
  shows "message_body W s = envelope W s"
proof -
  from sanitize_task_shape [OF assms] obtain a b c where
    "s = [(''title'', a), (''description'', b), (''priority'', c)]
           \<or> (\<exists>e. s = [(''title'', a), (''description'', b), (''priority'', c), (''due_date'', e)])"
    by blast
  then show ?thesis
    by (auto simp: message_body_def envelope_def dict_update_def created_at_text)
qed

lemma enqueue_request_eq:
  assumes "sanitize_task v = Inr s"
  shows "\<lparr>QueueUrl = TASK_QUEUE_URL W,
            MessageBody = json_dumps L (PDict (message_body W s)),
            MessageGroupId = ''task-processing'',
            MessageDeduplicationId = uuid4 W\<rparr> = enqueue_request L W s"
  by (simp add: enqueue_request_def message_body_sanitized [OF assms])

lemma get_sqs_client_ready:
  "client_ready W st \<Longrightarrow> \<exists>st1. get_sqs_client W st = (Inr (), st1) \<and> sent st1 = sent st
                                  \<and> api_log st1 = api_log st"
  by (auto simp: client_ready_def get_sqs_client_def split: if_splits)

lemma get_sqs_client_not_ready:
  "\<not> client_ready W st \<Longrightarrow> \<exists>e. boto3_client W = Some e \<and> get_sqs_client W st = (Inl e, st)"
  by (auto simp: client_ready_def get_sqs_client_def split: if_splits)

lemma send_to_queue_ready:
  assumes "sanitize_task v = Inr s" and "client_ready W st"
  shows "sent (snd (send_to_queue L W st s)) = sent st @ [enqueue_request L W s]"
    and "fst (send_to_queue L W st s) =
           (case send_message W (enqueue_request L W s) of
              None \<Rightarrow> Inr (uuid4 W) | Some e \<Rightarrow> Inl e)"
proof -
  from get_sqs_client_ready [OF assms(2)] obtain st1 where
    g: "get_sqs_client W st = (Inr (), st1)" "sent st1 = sent st" by blast
  note r = enqueue_request_eq [OF assms(1), of W L]
  show "sent (snd (send_to_queue L W st s)) = sent st @ [enqueue_request L W s]"
    unfolding send_to_queue_def Let_def r g
    by (simp add: g split: option.split exn.split)
  show "fst (send_to_queue L W st s) =
           (case send_message W (enqueue_request L W s) of
              None \<Rightarrow> Inr (uuid4 W) | Some e \<Rightarrow> Inl e)"
    unfolding send_to_queue_def Let_def r g
    by (simp split: option.split exn.split)
qed

lemma send_to_queue_not_ready:
  assumes "\<not> client_ready W st"
  shows "sent (snd (send_to_queue L W st s)) = sent st"
    and "isl (fst (send_to_queue L W st s))"
proof -
  from get_sqs_client_not_ready [OF assms] obtain e where
    g: "get_sqs_client W st = (Inl e, st)" by blast
  show "sent (snd (send_to_queue L W st s)) = sent st"
    unfolding send_to_queue_def Let_def g by (cases e) simp_all
  show "isl (fst (send_to_queue L W st s))"
    unfolding send_to_queue_def Let_def g by (cases e) simp_all
qed

subsection \<open>The handler, case by case\<close>

lemma create_response_simps [simp]:
  "statusCode (create_response L c b None) = c"
  "headers (create_response L c b None) = default_headers"
  "body (create_response L c b None) = json_dumps L (PDict b)"
  by (simp_all add: create_response_def)

lemma handler_invalid_json:
  assumes "parse_body L event = Inl (JSONDecodeError m)"
  shows "fst (api_lambda_handler L W st event) =
           create_response L 400 [(''error'', PStr ''Invalid JSON in request body'')] None"
    and "sent (snd (api_lambda_handler L W st event)) = sent st"
  using assms by (simp_all add: api_lambda_handler_def handle_request_def Let_def)

lemma handler_rejected:
  assumes "parse_body L event = Inr task_data"
    and "validate_task L task_data = Inr (False, msg)"
  shows "fst (api_lambda_handler L W st event) =
           create_response L 400 [(''error'', error_value msg)] None"
    and "sent (snd (api_lambda_handler L W st event)) = sent st"
  using assms by (simp_all add: api_lambda_handler_def handle_request_def Let_def)

lemma handler_raised:
  assumes "(parse_body L event = Inl e \<and> (\<forall>m. e \<noteq> JSONDecodeError m))
         \<or> (\<exists>task_data. parse_body L event = Inr task_data \<and> validate_task L task_data = Inl e)"
  shows "statusCode (fst (api_lambda_handler L W st event)) = 500"
    and "headers (fst (api_lambda_handler L W st event)) = default_headers"
    and "sent (snd (api_lambda_handler L W st event)) = sent st"
  using assms
  by (cases e; auto simp add: api_lambda_handler_def handle_request_def Let_def)+

lemma client_ready_log [simp]:
  "client_ready W (st\<lparr>api_log := l\<rparr>) = client_ready W st"
  by (simp add: client_ready_def)

lemma handle_request_accepted:
  assumes "parse_body L event = Inr task_data"
    and "validate_task L task_data = Inr (True, msg)"
    and "sanitize_task task_data = Inr s"
    and "send_to_queue L W st0 s = (r, st')"
  shows "handle_request L W st0 event =
     (case r of Inl e \<Rightarrow> (Inl e, st')
      | Inr task_id \<Rightarrow> (Inr (create_response L 200
                                   [(''task_id'', PStr task_id),
                                    (''message'', PStr ''Task created successfully''),
                                    (''status'', PStr ''queued'')] None), st'))"
  using assms by (simp add: handle_request_def split: sum.split)

lemma handler_accepted:
  assumes "parse_body L event = Inr task_data"
    and "validate_task L task_data = Inr (True, msg)"
    and "sanitize_task task_data = Inr s"
    and "client_ready W st"
  shows "sent (snd (api_lambda_handler L W st event)) = sent st @ [enqueue_request L W s]"
    and "send_message W (enqueue_request L W s) = None \<Longrightarrow>
           fst (api_lambda_handler L W st event) =
             create_response L 200
               [(''task_id'', PStr (uuid4 W)),
                (''message'', PStr ''Task created successfully''),
                (''status'', PStr ''queued'')] None"
    and "send_message W (enqueue_request L W s) = Some e \<Longrightarrow>
           statusCode (fst (api_lambda_handler L W st event)) = 500
           \<and> headers (fst (api_lambda_handler L W st event)) = default_headers"
proof -
  let ?st0 = "st\<lparr>api_log := api_log st @ [A_info_received_event (json_dumps L event)]\<rparr>"
  obtain r st' where q: "send_to_queue L W ?st0 s = (r, st')"
    by (cases "send_to_queue L W ?st0 s") auto
  have ready: "client_ready W ?st0" using assms(4) by simp
  have s1: "sent st' = sent st @ [enqueue_request L W s]"
    using send_to_queue_ready(1) [OF assms(3) ready, of L] q by simp
  have s2: "r = (case send_message W (enqueue_request L W s) of
              None \<Rightarrow> Inr (uuid4 W) | Some e \<Rightarrow> Inl e)"
    using send_to_queue_ready(2) [OF assms(3) ready, of L] q by simp
  note h = handle_request_accepted [OF assms(1-3) q]
  show "sent (snd (api_lambda_handler L W st event)) = sent st @ [enqueue_request L W s]"
    unfolding api_lambda_handler_def Let_def h using s1
    by (cases r) (auto split: exn.split)
  show "fst (api_lambda_handler L W st event) =
             create_response L 200
               [(''task_id'', PStr (uuid4 W)),
                (''message'', PStr ''Task created successfully''),
                (''status'', PStr ''queued'')] None"
    if "send_message W (enqueue_request L W s) = None"
    unfolding api_lambda_handler_def Let_def h using s2 that by simp
  show "statusCode (fst (api_lambda_handler L W st event)) = 500
           \<and> headers (fst (api_lambda_handler L W st event)) = default_headers"
    if "send_message W (enqueue_request L W s) = Some e"
    unfolding api_lambda_handler_def Let_def h using s2 that
    by (cases e) simp_all
qed

lemma handler_without_client:
  assumes "parse_body L event = Inr task_data"
    and "validate_task L task_data = Inr (True, msg)"
    and "\<not> client_ready W st"
  shows "sent (snd (api_lambda_handler L W st event)) = sent st"
    and "statusCode (fst (api_lambda_handler L W st event)) = 500"
    and "headers (fst (api_lambda_handler L W st event)) = default_headers"
proof -
  let ?st0 = "st\<lparr>api_log := api_log st @ [A_info_received_event (json_dumps L event)]\<rparr>"
  from sanitize_after_validate [OF assms(2)] obtain s where s: "sanitize_task task_data = Inr s" ..
  obtain r st' where q: "send_to_queue L W ?st0 s = (r, st')"
    by (cases "send_to_queue L W ?st0 s") auto
  have nr: "\<not> client_ready W ?st0" using assms(3) by simp
  have s1: "sent st' = sent st"
    using send_to_queue_not_ready(1) [OF nr, of L s] q by simp
  from send_to_queue_not_ready(2) [OF nr, of L s] q obtain e where r: "r = Inl e"
    by (cases r) auto
  note h = handle_request_accepted [OF assms(1,2) s q]
  show "sent (snd (api_lambda_handler L W st event)) = sent st"
    unfolding api_lambda_handler_def Let_def h r using s1 by (cases e) simp_all
  show "statusCode (fst (api_lambda_handler L W st event)) = 500"
    unfolding api_lambda_handler_def Let_def h r by (cases e) simp_all
  show "headers (fst (api_lambda_handler L W st event)) = default_headers"
    unfolding api_lambda_handler_def Let_def h r by (cases e) simp_all
qed

lemma validate_task_missing:
  assumes "\<not> list_all (\<lambda>k. map_of kvs k \<noteq> None) [''title'', ''description'', ''priority'']"
  shows "\<exists>m. validate_task L (PDict kvs) = Inr (False, Some m)"
  using assms by (auto simp: validate_task_def)

text \<open>
  Claim C3, as amended.  When the request body decodes and \<open>validate_task\<close> rejects
  it, the handler answers 400 with the validator's message and makes no call to the
  queue.  When \<open>validate_task\<close> accepts it, exactly one call is added if the queue
  client is at hand, and none, with the answer 500, if its creation raises.  When
  \<open>validate_task\<close> itself raises, the answer is 500 and no call is made.  So no call
  is made unless validation passes, and never more than one.  A dictionary without
  title, description or priority is answered with 400 and no call.
\<close>

theorem enqueue_only_after_validation:
  assumes "parse_body L event = Inr task_data"
  shows "(validate_task L task_data = Inr (False, msg) \<longrightarrow>
            fst (api_lambda_handler L W st event) =
              create_response L 400 [(''error'', error_value msg)] None
            \<and> sent (snd (api_lambda_handler L W st event)) = sent st)
       \<and> (validate_task L task_data = Inr (True, msg) \<longrightarrow> client_ready W st \<longrightarrow>
            length (sent (snd (api_lambda_handler L W st event))) = length (sent st) + 1)
       \<and> (validate_task L task_data = Inr (True, msg) \<longrightarrow> \<not> client_ready W st \<longrightarrow>
            statusCode (fst (api_lambda_handler L W st event)) = 500
            \<and> sent (snd (api_lambda_handler L W st event)) = sent st)
       \<and> (validate_task L task_data = Inl e \<longrightarrow>
            statusCode (fst (api_lambda_handler L W st event)) = 500
            \<and> sent (snd (api_lambda_handler L W st event)) = sent st)
       \<and> (\<forall>kvs. task_data = PDict kvs \<longrightarrow>
            \<not> list_all (\<lambda>k. map_of kvs k \<noteq> None) [''title'', ''description'', ''priority''] \<longrightarrow>
            statusCode (fst (api_lambda_handler L W st event)) = 400
            \<and> sent (snd (api_lambda_handler L W st event)) = sent st)"
proof (intro conjI impI allI)
  assume "validate_task L task_data = Inr (False, msg)"
  from handler_rejected [OF assms this, of W st]
  show "fst (api_lambda_handler L W st event) =
              create_response L 400 [(''error'', error_value msg)] None"
    and "sent (snd (api_lambda_handler L W st event)) = sent st"
    by simp_all
next
  assume v: "validate_task L task_data = Inr (True, msg)" and c: "client_ready W st"
  from sanitize_after_validate [OF v] obtain s where "sanitize_task task_data = Inr s" ..
  from handler_accepted(1) [OF assms v this c]
  show "length (sent (snd (api_lambda_handler L W st event))) = length (sent st) + 1"
    by simp
next
  assume v: "validate_task L task_data = Inr (True, msg)" and c: "\<not> client_ready W st"
  from handler_without_client [OF assms v c]
  show "statusCode (fst (api_lambda_handler L W st event)) = 500"
    and "sent (snd (api_lambda_handler L W st event)) = sent st"
    by simp_all
next
  assume "validate_task L task_data = Inl e"
  with assms have "(parse_body L event = Inl e \<and> (\<forall>m. e \<noteq> JSONDecodeError m))
         \<or> (\<exists>task_data. parse_body L event = Inr task_data \<and> validate_task L task_data = Inl e)"
    by blast
  from handler_raised [OF this, of W st]
  show "statusCode (fst (api_lambda_handler L W st event)) = 500"
    and "sent (snd (api_lambda_handler L W st event)) = sent st"
    by simp_all
next
  fix kvs
  assume "task_data = PDict kvs"
    and "\<not> list_all (\<lambda>k. map_of kvs k \<noteq> None) [''title'', ''description'', ''priority'']"
  then obtain m where "validate_task L task_data = Inr (False, Some m)"
    using validate_task_missing [of kvs L] by auto
  from handler_rejected [OF assms this, of W st]
  show "statusCode (fst (api_lambda_handler L W st event)) = 400"
    and "sent (snd (api_lambda_handler L W st event)) = sent st"
    by simp_all
qed

text \<open>
  Requests that are accepted, rejected, not JSON, and a number; and the state of
  the client in the sample worlds.
\<close>

lemma parse_samples:
  "parse_body sample_library valid_event = Inr (PDict valid_task)"
  "parse_body sample_library untitled_event =
     Inr (PDict [(''description'', PStr ''Quarterly numbers''), (''priority'', PStr ''high'')])"
  "parse_body sample_library malformed_event = Inl (JSONDecodeError ''Expecting value'')"
  "parse_body sample_library number_event = Inr (PInt 5)"
  by (simp_all add: parse_body_def valid_event_def untitled_event_def malformed_event_def
        number_event_def sample_library_def)

lemma strip_valid_task:
  "strip ''Write report'' = ''Write report''"
  "strip ''Quarterly numbers'' = ''Quarterly numbers''"
  "strip ''high'' = ''high''"
  by (simp_all add: strip_def isspace_def)

lemma validate_samples:
  "validate_task sample_library (PDict valid_task) = Inr (True, None)"
  "validate_task sample_library
     (PDict [(''description'', PStr ''Quarterly numbers''), (''priority'', PStr ''high'')])
     = Inr (False, Some ''Missing required field: title'')"
  "validate_task sample_library (PInt 5) = Inl TypeError"
proof -
  show "validate_task sample_library (PDict valid_task) = Inr (True, None)"
    unfolding valid_task_def
    by (subst validate_task_dict) (simp_all add: strip_valid_task)
qed (simp_all add: validate_task_def)

lemma lower_high: "lower ''high'' = ''high''"
  by code_simp

lemma sanitize_valid_task: "sanitize_task (PDict valid_task) = Inr valid_task"
  by (simp add: sanitize_task_def valid_task_def strip_valid_task lower_high)

lemma client_samples:
  "client_ready sample_world initial_state"
  "client_ready refusing_world initial_state"
  "\<not> client_ready clientless_world initial_state"
  by (simp_all add: client_ready_def sample_world_def refusing_world_def clientless_world_def
        initial_state_def)

theorem enqueue_only_after_validation_witness:
  "parse_body sample_library valid_event = Inr (PDict valid_task)
   \<and> validate_task sample_library (PDict valid_task) = Inr (True, None)
   \<and> client_ready sample_world initial_state
   \<and> length (sent (snd (api_lambda_handler sample_library sample_world initial_state valid_event))) = 1
   \<and> \<not> client_ready clientless_world initial_state
   \<and> sent (snd (api_lambda_handler sample_library clientless_world initial_state valid_event)) = []
   \<and> validate_task sample_library
        (PDict [(''description'', PStr ''Quarterly numbers''), (''priority'', PStr ''high'')])
        = Inr (False, Some ''Missing required field: title'')
   \<and> statusCode (fst (api_lambda_handler sample_library sample_world initial_state untitled_event)) = 400
   \<and> sent (snd (api_lambda_handler sample_library sample_world initial_state untitled_event)) = []
   \<and> validate_task sample_library (PInt 5) = Inl TypeError
   \<and> statusCode (fst (api_lambda_handler sample_library sample_world initial_state number_event)) = 500
   \<and> sent (snd (api_lambda_handler sample_library sample_world initial_state number_event)) = []"
  using enqueue_only_after_validation [OF parse_samples(1), of None sample_world initial_state]
    enqueue_only_after_validation [OF parse_samples(1), of None clientless_world initial_state]
    enqueue_only_after_validation [OF parse_samples(2), of "Some ''Missing required field: title''"
      sample_world initial_state]
    enqueue_only_after_validation [OF parse_samples(4), of _ sample_world initial_state TypeError]
  by (simp add: parse_samples validate_samples client_samples) (simp add: initial_state_def)

text \<open>
  Claim C3 as stated promises one call for every input that passes validation, and
  a rejection for every input that fails it.  The valid task passes validation, yet
  where the creation of the queue client raises no call is made and the answer is
  500; and the body \<open>5\<close> does not pass validation, yet the answer is 500 from the
  \<open>TypeError\<close> of the first presence test, not a rejection with a message of the
  validator.
\<close>

theorem one_call_per_valid_input_counterexample:
  "validate_task sample_library (PDict valid_task) = Inr (True, None)
   \<and> parse_body sample_library valid_event = Inr (PDict valid_task)
   \<and> sent (snd (api_lambda_handler sample_library clientless_world initial_state valid_event)) = []
   \<and> statusCode (fst (api_lambda_handler sample_library clientless_world initial_state valid_event)) = 500
   \<and> parse_body sample_library number_event = Inr (PInt 5)
   \<and> validate_task sample_library (PInt 5) = Inl TypeError
   \<and> statusCode (fst (api_lambda_handler sample_library sample_world initial_state number_event)) = 500"
proof -
  have "sent (snd (api_lambda_handler sample_library clientless_world initial_state valid_event)) = []"
    and "statusCode (fst (api_lambda_handler sample_library clientless_world initial_state valid_event)) = 500"
    using handler_without_client [OF parse_samples(1) validate_samples(1) client_samples(3)]
    by (simp_all add: initial_state_def)
  moreover have "statusCode (fst (api_lambda_handler sample_library sample_world initial_state number_event)) = 500"
    by (rule handler_raised(1)) (simp add: parse_samples validate_samples)
  ultimately show ?thesis by (simp add: parse_samples validate_samples)
qed

lemma zero_padded_Suc:
  "zero_padded (Suc w) n = digit_char (n div 10 ^ w mod 10) # zero_padded w n"
  by (simp add: zero_padded_def)

lemma zero_padded_0: "zero_padded 0 n = []"
  by (simp add: zero_padded_def)

lemma zero_padded_2: "zero_padded 2 n = [digit_char (n div 10 mod 10), digit_char (n mod 10)]"
  by (simp add: numeral_2_eq_2 zero_padded_Suc zero_padded_0)

lemma zero_padded_4:
  "zero_padded 4 n = [digit_char (n div 1000 mod 10), digit_char (n div 100 mod 10),
                      digit_char (n div 10 mod 10), digit_char (n mod 10)]"
proof -
  have "zero_padded (Suc (Suc (Suc (Suc 0)))) n =
     [digit_char (n div 1000 mod 10), digit_char (n div 100 mod 10),
                      digit_char (n div 10 mod 10), digit_char (n mod 10)]"
    by (simp add: zero_padded_Suc zero_padded_0)
  moreover have "(4::nat) = Suc (Suc (Suc (Suc 0)))" by simp
  ultimately show ?thesis by (simp only:)
qed

lemma digit_char_eq: "d < 10 \<Longrightarrow> (digit_char d = c) = (of_char c = 48 + d)"
proof -
  assume d: "d < 10"
  have "(digit_char d = c) = (of_char (digit_char d) = (of_char c :: nat))"
    by simp
  also have "(of_char (digit_char d) :: nat) = 48 + d"
    using d by (simp add: digit_char_def)
  finally show ?thesis by auto
qed

lemma digit_chars:
  "digit_char 0 = CHR ''0''" "digit_char (Suc 0) = CHR ''1''" "digit_char 2 = CHR ''2''"
  "digit_char 3 = CHR ''3''" "digit_char 5 = CHR ''5''" "digit_char 7 = CHR ''7''"
  by (simp_all add: digit_char_eq)

lemma isoformat_sample: "isoformat_local (utcnow sample_world) = ''2025-11-13T10:00:07''"
  by (simp add: isoformat_local_def sample_world_def zero_padded_2 zero_padded_4 digit_chars)

text \<open>
  Claim C8.  For a sanitized task, \<open>send_to_queue\<close> adds the enqueue request of the
  specification and nothing else, and it adds it whenever the client is at hand; in
  particular every call that succeeds has submitted it.  The body of the request is
  the serialized envelope (the identifier drawn for this request, the clock reading
  in UTC with the \<open>Z\<close> designator, then all normalized fields), its group is the one
  fixed group, and its deduplication identifier is the identifier of the envelope,
  which is also what a successful call returns.  The handler submits this request
  for every request that passes validation.
\<close>

theorem enqueue_carries_the_envelope:
  assumes "sanitize_task task_data = Inr normalized"
  shows "sent (snd (send_to_queue L W st normalized)) =
           sent st @ (if client_ready W st then [enqueue_request L W normalized] else [])
       \<and> (\<forall>task_id. fst (send_to_queue L W st normalized) = Inr task_id \<longrightarrow>
            task_id = uuid4 W
            \<and> sent (snd (send_to_queue L W st normalized)) =
                sent st @ [enqueue_request L W normalized])
       \<and> MessageGroupId (enqueue_request L W normalized) = ''task-processing''
       \<and> MessageDeduplicationId (enqueue_request L W normalized) = uuid4 W
       \<and> MessageBody (enqueue_request L W normalized) =
           json_dumps L (PDict ((''task_id'', PStr (uuid4 W))
                                # (''created_at'', PStr (isoformat_local (utcnow W) @ ''Z''))
                                # normalized))
       \<and> (client_ready W st \<longrightarrow> send_message W (enqueue_request L W normalized) = None \<longrightarrow>
            fst (send_to_queue L W st normalized) = Inr (uuid4 W))
       \<and> (\<forall>event msg. parse_body L event = Inr task_data \<longrightarrow>
            validate_task L task_data = Inr (True, msg) \<longrightarrow>
            sent (snd (api_lambda_handler L W st event)) =
              sent st @ (if client_ready W st then [enqueue_request L W normalized] else []))"
proof (cases "client_ready W st")
  case True
  have "task_id = uuid4 W" if "fst (send_to_queue L W st normalized) = Inr task_id" for task_id
    using send_to_queue_ready(2) [OF assms True, of L] that
    by (cases "send_message W (enqueue_request L W normalized)") simp_all
  then show ?thesis
    using True send_to_queue_ready [OF assms True, of L]
      handler_accepted(1) [OF _ _ assms True, of L]
    by (auto simp add: enqueue_request_def envelope_def)
next
  case False
  then show ?thesis
    using send_to_queue_not_ready [OF False, of L normalized]
      handler_without_client(1) [OF _ _ False, of L _ task_data]
    by (auto simp add: enqueue_request_def envelope_def)
qed

theorem enqueue_carries_the_envelope_witness:
  "sanitize_task (PDict valid_task) = Inr valid_task
   \<and> client_ready sample_world initial_state
   \<and> sent (snd (send_to_queue sample_library sample_world initial_state valid_task)) =
       [\<lparr>QueueUrl = ''https://queue.example/tasks.fifo'',
         MessageBody = json_dumps sample_library
           (PDict ((''task_id'', PStr ''12345678-1234-4234-8234-123456789012'')
                   # (''created_at'', PStr ''2025-11-13T10:00:07Z'') # valid_task)),
         MessageGroupId = ''task-processing'',
         MessageDeduplicationId = ''12345678-1234-4234-8234-123456789012''\<rparr>]
   \<and> fst (send_to_queue sample_library sample_world initial_state valid_task) =
       Inr ''12345678-1234-4234-8234-123456789012''
   \<and> sent (snd (api_lambda_handler sample_library sample_world initial_state valid_event)) =
       sent (snd (send_to_queue sample_library sample_world initial_state valid_task))"
proof -
  have u: "uuid4 sample_world = ''12345678-1234-4234-8234-123456789012''"
    "TASK_QUEUE_URL sample_world = ''https://queue.example/tasks.fifo''"
    "send_message sample_world = (\<lambda>r. None)"
    by (simp_all add: sample_world_def)
  have e: "enqueue_request sample_library sample_world valid_task =
       \<lparr>QueueUrl = ''https://queue.example/tasks.fifo'',
         MessageBody = json_dumps sample_library
           (PDict ((''task_id'', PStr ''12345678-1234-4234-8234-123456789012'')
                   # (''created_at'', PStr ''2025-11-13T10:00:07Z'') # valid_task)),
         MessageGroupId = ''task-processing'',
         MessageDeduplicationId = ''12345678-1234-4234-8234-123456789012''\<rparr>"
    by (simp add: enqueue_request_def envelope_def u isoformat_sample)
  have i: "sent initial_state = []" by (simp add: initial_state_def)
  note t = enqueue_carries_the_envelope [OF sanitize_valid_task, of sample_library sample_world
        initial_state]
  have a: "sent (snd (send_to_queue sample_library sample_world initial_state valid_task)) =
             [enqueue_request sample_library sample_world valid_task]"
    using t [THEN conjunct1] client_samples(1) i by simp
  have b: "fst (send_to_queue sample_library sample_world initial_state valid_task) =
             Inr (uuid4 sample_world)"
    using t [THEN conjunct2, THEN conjunct2, THEN conjunct2, THEN conjunct2, THEN conjunct2,
             THEN conjunct1] client_samples(1) u(3)
    by simp
  have c: "sent (snd (api_lambda_handler sample_library sample_world initial_state valid_event)) =
             [enqueue_request sample_library sample_world valid_task]"
    using t [THEN conjunct2, THEN conjunct2, THEN conjunct2, THEN conjunct2, THEN conjunct2,
             THEN conjunct2, rule_format, OF parse_samples(1) validate_samples(1)]
      client_samples(1) i
    by simp
  show ?thesis
    unfolding a b c e u by (simp add: sanitize_valid_task client_samples)
qed

lemma handler_outcomes:
  "(\<exists>m. parse_body L event = Inl (JSONDecodeError m))
   \<or> (\<exists>e. parse_body L event = Inl e \<and> (\<forall>m. e \<noteq> JSONDecodeError m))
   \<or> (\<exists>task_data e. parse_body L event = Inr task_data \<and> validate_task L task_data = Inl e)
   \<or> (\<exists>task_data msg. parse_body L event = Inr task_data
          \<and> validate_task L task_data = Inr (False, msg))
   \<or> (\<exists>task_data msg s. parse_body L event = Inr task_data
          \<and> validate_task L task_data = Inr (True, msg) \<and> sanitize_task task_data = Inr s)"
proof (cases "parse_body L event")
  case (Inl e)
  then show ?thesis by (cases e) auto
next
  case (Inr task_data)
  show ?thesis
  proof (cases "validate_task L task_data")
    case (Inl e)
    with Inr show ?thesis by auto
  next
    case v: (Inr r)
    obtain ok msg where r: "r = (ok, msg)" by (cases r)
    show ?thesis
    proof (cases ok)
      case True
      with v r sanitize_after_validate [of L task_data msg] Inr show ?thesis by auto
    next
      case False
      with v r Inr show ?thesis by auto
    qed
  qed
qed

text \<open>
  Claim C9.  Every response carries the fixed headers, among them the JSON content
  type and the permissive origin, and its status is 200, 400 or 500: a validation
  failure gives 400 with the error body, as does a body that is not JSON; a request
  that passes validation gives 200 with the task identifier, the message and the
  status \<open>queued\<close> when the queue accepts it, and 500 when the queue refuses it or
  the queue client cannot be created; an exception while reading or validating the
  request gives 500.
\<close>

theorem responses_follow_the_outcome:
  "headers (fst (api_lambda_handler L W st event)) = default_headers
   \<and> map_of default_headers ''Content-Type'' = Some ''application/json''
   \<and> map_of default_headers ''Access-Control-Allow-Origin'' = Some ''*''
   \<and> statusCode (fst (api_lambda_handler L W st event)) \<in> {200, 400, 500}
   \<and> (\<forall>task_data msg. parse_body L event = Inr task_data \<longrightarrow>
         validate_task L task_data = Inr (False, msg) \<longrightarrow>
         statusCode (fst (api_lambda_handler L W st event)) = 400
         \<and> body (fst (api_lambda_handler L W st event)) =
             json_dumps L (PDict [(''error'', error_value msg)]))
   \<and> (\<forall>m. parse_body L event = Inl (JSONDecodeError m) \<longrightarrow>
         statusCode (fst (api_lambda_handler L W st event)) = 400
         \<and> body (fst (api_lambda_handler L W st event)) =
             json_dumps L (PDict [(''error'', PStr ''Invalid JSON in request body'')]))
   \<and> (\<forall>task_data msg s. parse_body L event = Inr task_data \<longrightarrow>
         validate_task L task_data = Inr (True, msg) \<longrightarrow>
         sanitize_task task_data = Inr s \<longrightarrow>
         (client_ready W st \<longrightarrow> send_message W (enqueue_request L W s) = None \<longrightarrow>
            statusCode (fst (api_lambda_handler L W st event)) = 200
            \<and> body (fst (api_lambda_handler L W st event)) =
                json_dumps L (PDict [(''task_id'', PStr (uuid4 W)),
                                     (''message'', PStr ''Task created successfully''),
                                     (''status'', PStr ''queued'')]))
         \<and> (client_ready W st \<longrightarrow> send_message W (enqueue_request L W s) \<noteq> None \<longrightarrow>
            statusCode (fst (api_lambda_handler L W st event)) = 500)
         \<and> (\<not> client_ready W st \<longrightarrow>
            statusCode (fst (api_lambda_handler L W st event)) = 500))
   \<and> (\<forall>e. (parse_body L event = Inl e \<and> (\<forall>m. e \<noteq> JSONDecodeError m))
            \<or> (\<exists>task_data. parse_body L event = Inr task_data
                   \<and> validate_task L task_data = Inl e) \<longrightarrow>
         statusCode (fst (api_lambda_handler L W st event)) = 500)"
proof -
  let ?r = "fst (api_lambda_handler L W st event)"
  have rejected: "statusCode ?r = 400 \<and> body ?r = json_dumps L (PDict [(''error'', error_value msg)])
                  \<and> headers ?r = default_headers"
    if "parse_body L event = Inr task_data" "validate_task L task_data = Inr (False, msg)"
    for task_data msg
    using handler_rejected(1) [OF that, of W st] by simp
  have invalid: "statusCode ?r = 400
      \<and> body ?r = json_dumps L (PDict [(''error'', PStr ''Invalid JSON in request body'')])
      \<and> headers ?r = default_headers"
    if "parse_body L event = Inl (JSONDecodeError m)" for m
    using handler_invalid_json(1) [OF that, of W st] by simp
  have accepted: "statusCode ?r = 200
      \<and> body ?r = json_dumps L (PDict [(''task_id'', PStr (uuid4 W)),
                                     (''message'', PStr ''Task created successfully''),
                                     (''status'', PStr ''queued'')])
      \<and> headers ?r = default_headers"
    if "parse_body L event = Inr task_data" "validate_task L task_data = Inr (True, msg)"
      "sanitize_task task_data = Inr s" "client_ready W st"
      "send_message W (enqueue_request L W s) = None"
    for task_data msg s
    using handler_accepted(2) [OF that] by simp
  have refused: "statusCode ?r = 500 \<and> headers ?r = default_headers"
    if "parse_body L event = Inr task_data" "validate_task L task_data = Inr (True, msg)"
      "sanitize_task task_data = Inr s" "client_ready W st"
      "send_message W (enqueue_request L W s) \<noteq> None"
    for task_data msg s
  proof -
    from that(5) obtain e where "send_message W (enqueue_request L W s) = Some e" by auto
    from handler_accepted(3) [OF that(1-4) this] show ?thesis .
  qed
  have clientless: "statusCode ?r = 500 \<and> headers ?r = default_headers"
    if "parse_body L event = Inr task_data" "validate_task L task_data = Inr (True, msg)"
      "\<not> client_ready W st"
    for task_data msg
    using handler_without_client(2,3) [OF that] by simp
  have raised: "statusCode ?r = 500 \<and> headers ?r = default_headers"
    if "(parse_body L event = Inl e \<and> (\<forall>m. e \<noteq> JSONDecodeError m))
         \<or> (\<exists>task_data. parse_body L event = Inr task_data \<and> validate_task L task_data = Inl e)"
    for e
    using handler_raised(1,2) [OF that, of W st] by simp
  have all: "headers ?r = default_headers \<and> statusCode ?r \<in> {200, 400, 500}"
    using handler_outcomes [of L event]
  proof (elim disjE exE conjE)
    fix task_data msg s
    assume p: "parse_body L event = Inr task_data"
      and v: "validate_task L task_data = Inr (True, msg)"
      and s: "sanitize_task task_data = Inr s"
    show ?thesis
    proof (cases "client_ready W st")
      case False
      from clientless [OF p v False] show ?thesis by simp
    next
      case True
      show ?thesis
      proof (cases "send_message W (enqueue_request L W s) = None")
        case sent_ok: True
        from accepted [OF p v s True sent_ok] show ?thesis by simp
      next
        case False
        from refused [OF p v s True False] show ?thesis by simp
      qed
    qed
  next
    fix m assume "parse_body L event = Inl (JSONDecodeError m)"
    from invalid [OF this] show ?thesis by simp
  next
    fix e assume "parse_body L event = Inl e" "\<forall>m. e \<noteq> JSONDecodeError m"
    then have "(parse_body L event = Inl e \<and> (\<forall>m. e \<noteq> JSONDecodeError m))
         \<or> (\<exists>task_data. parse_body L event = Inr task_data \<and> validate_task L task_data = Inl e)"
      by blast
    from raised [OF this] show ?thesis by simp
  next
    fix task_data e
    assume "parse_body L event = Inr task_data" "validate_task L task_data = Inl e"
    then have "(parse_body L event = Inl e \<and> (\<forall>m. e \<noteq> JSONDecodeError m))
         \<or> (\<exists>task_data. parse_body L event = Inr task_data \<and> validate_task L task_data = Inl e)"
      by blast
    from raised [OF this] show ?thesis by simp
  next
    fix task_data msg
    assume "parse_body L event = Inr task_data" "validate_task L task_data = Inr (False, msg)"
    from rejected [OF this] show ?thesis by simp
  qed
  have c1: "headers ?r = default_headers" using all by simp
  have c2: "map_of default_headers ''Content-Type'' = Some ''application/json''"
    by (simp add: default_headers_def)
  have c3: "map_of default_headers ''Access-Control-Allow-Origin'' = Some ''*''"
    by (simp add: default_headers_def)
  have c4: "statusCode ?r \<in> {200, 400, 500}" using all by simp
  have c5: "\<forall>task_data msg. parse_body L event = Inr task_data \<longrightarrow>
         validate_task L task_data = Inr (False, msg) \<longrightarrow>
         statusCode ?r = 400 \<and> body ?r = json_dumps L (PDict [(''error'', error_value msg)])"
    using rejected by blast
  have c6: "\<forall>m. parse_body L event = Inl (JSONDecodeError m) \<longrightarrow>
         statusCode ?r = 400
         \<and> body ?r = json_dumps L (PDict [(''error'', PStr ''Invalid JSON in request body'')])"
    using invalid by blast
  have c7: "\<forall>task_data msg s. parse_body L event = Inr task_data \<longrightarrow>
         validate_task L task_data = Inr (True, msg) \<longrightarrow>
         sanitize_task task_data = Inr s \<longrightarrow>
         (client_ready W st \<longrightarrow> send_message W (enqueue_request L W s) = None \<longrightarrow>
            statusCode ?r = 200
            \<and> body ?r =
                json_dumps L (PDict [(''task_id'', PStr (uuid4 W)),
                                     (''message'', PStr ''Task created successfully''),
                                     (''status'', PStr ''queued'')]))
         \<and> (client_ready W st \<longrightarrow> send_message W (enqueue_request L W s) \<noteq> None \<longrightarrow>
            statusCode ?r = 500)
         \<and> (\<not> client_ready W st \<longrightarrow> statusCode ?r = 500)"
    using accepted refused clientless by blast
  have c8: "\<forall>e. (parse_body L event = Inl e \<and> (\<forall>m. e \<noteq> JSONDecodeError m))
            \<or> (\<exists>task_data. parse_body L event = Inr task_data
                   \<and> validate_task L task_data = Inl e) \<longrightarrow>
         statusCode ?r = 500"
    using raised by blast
  show ?thesis
    by (intro conjI) (fact c1 c2 c3 c4 c5 c6 c7 c8)+
qed


theorem responses_follow_the_outcome_witness:
  "statusCode (fst (api_lambda_handler sample_library sample_world initial_state valid_event)) = 200
   \<and> statusCode (fst (api_lambda_handler sample_library sample_world initial_state untitled_event)) = 400
   \<and> body (fst (api_lambda_handler sample_library sample_world initial_state untitled_event)) =
       json_dumps sample_library (PDict [(''error'', PStr ''Missing required field: title'')])
   \<and> statusCode (fst (api_lambda_handler sample_library sample_world initial_state malformed_event)) = 400
   \<and> statusCode (fst (api_lambda_handler sample_library sample_world initial_state number_event)) = 500
   \<and> statusCode (fst (api_lambda_handler sample_library refusing_world initial_state valid_event)) = 500
   \<and> statusCode (fst (api_lambda_handler sample_library clientless_world initial_state valid_event)) = 500"
proof -
  have ok: "send_message sample_world (enqueue_request sample_library sample_world valid_task) = None"
    by (simp add: sample_world_def)
  have no: "send_message refusing_world (enqueue_request sample_library refusing_world valid_task)
              \<noteq> None"
    by (simp add: refusing_world_def)
  have e: "error_value (Some ''Missing required field: title'') = PStr ''Missing required field: title''"
    by (simp add: error_value_def)
  have "statusCode (fst (api_lambda_handler sample_library sample_world initial_state valid_event)) = 200"
    using responses_follow_the_outcome [of sample_library sample_world initial_state valid_event]
      parse_samples(1) validate_samples(1) sanitize_valid_task ok client_samples(1)
    by blast
  moreover have "statusCode (fst (api_lambda_handler sample_library sample_world initial_state untitled_event)) = 400
     \<and> body (fst (api_lambda_handler sample_library sample_world initial_state untitled_event)) =
       json_dumps sample_library (PDict [(''error'', PStr ''Missing required field: title'')])"
    using responses_follow_the_outcome [of sample_library sample_world initial_state untitled_event]
      parse_samples(2) validate_samples(2) e
    by metis
  moreover have "statusCode (fst (api_lambda_handler sample_library sample_world initial_state malformed_event)) = 400"
    using responses_follow_the_outcome [of sample_library sample_world initial_state malformed_event]
      parse_samples(3)
    by blast
  moreover have "statusCode (fst (api_lambda_handler sample_library sample_world initial_state number_event)) = 500"
    using responses_follow_the_outcome [of sample_library sample_world initial_state number_event]
      parse_samples(4) validate_samples(3)
    by blast
  moreover have "statusCode (fst (api_lambda_handler sample_library refusing_world initial_state valid_event)) = 500"
    using responses_follow_the_outcome [of sample_library refusing_world initial_state valid_event]
      parse_samples(1) validate_samples(1) sanitize_valid_task no client_samples(2)
    by blast
  moreover have "statusCode (fst (api_lambda_handler sample_library clientless_world initial_state valid_event)) = 500"
    using responses_follow_the_outcome [of sample_library clientless_world initial_state valid_event]
      parse_samples(1) validate_samples(1) sanitize_valid_task client_samples(3)
    by blast
  ultimately show ?thesis by simp
qed

end
